theory Spec2Isabelle
  imports Complex_Main
begin

section \<open>Points\<close>

text \<open>
  A point is a numpy array of three coordinates, read as \<open>a[0]\<close>, \<open>a[1]\<close>, \<open>a[2]\<close>.
  The volume engine is studied in exact arithmetic, the frame in which its properties
  are stated: there a coordinate is a real number and the operations on points are the
  exact ones of this section. The thickness constraints and the registry are studied
  with the float64 arithmetic of numpy, which the next section introduces.
\<close>

datatype vec3 = Vec3 (c0: real) (c1: real) (c2: real)

definition zero3 :: vec3 where
  "zero3 = Vec3 0 0 0"

definition vadd :: "vec3 \<Rightarrow> vec3 \<Rightarrow> vec3" where
  "vadd a b = Vec3 (c0 a + c0 b) (c1 a + c1 b) (c2 a + c2 b)"

definition vsub :: "vec3 \<Rightarrow> vec3 \<Rightarrow> vec3" where
  "vsub a b = Vec3 (c0 a - c0 b) (c1 a - c1 b) (c2 a - c2 b)"

definition smul :: "real \<Rightarrow> vec3 \<Rightarrow> vec3" where
  "smul r a = Vec3 (r * c0 a) (r * c1 a) (r * c2 a)"

definition vdiv :: "vec3 \<Rightarrow> real \<Rightarrow> vec3" where
  "vdiv a r = Vec3 (c0 a / r) (c1 a / r) (c2 a / r)"

definition vneg :: "vec3 \<Rightarrow> vec3" where
  "vneg a = Vec3 (- c0 a) (- c1 a) (- c2 a)"

definition dot :: "vec3 \<Rightarrow> vec3 \<Rightarrow> real" where
  "dot a b = c0 a * c0 b + c1 a * c1 b + c2 a * c2 b"

section \<open>Floating-point numbers\<close>

text \<open>
  A float64 value is a real number, an infinity or \<open>nan\<close>. The sign of a zero is not
  kept: the divisors that occur are norms and quotients of norms, whose zero is \<open>+0.0\<close>.
\<close>

datatype npfloat = Fin real | PInf | MInf | NaN

text \<open>
  Rounding to float64, to nearest with ties to even. \<open>rhe\<close> rounds a real to an
  integer. \<open>fexp x\<close> is the binary exponent of \<open>x\<close>, not below that of the smallest
  normal number, so that the spacing \<open>ulp x\<close> of the floats around \<open>x\<close> is 52 binary
  places below it and is \<open>2 powr (-1074)\<close> in the subnormal range. A result that
  rounds to \<open>2 powr 1024\<close> or beyond is an infinity.
\<close>

definition rhe :: "real \<Rightarrow> int" where
  "rhe y = (let f = \<lfloor>y\<rfloor> in
            if y - of_int f < 1 / 2 then f
            else if 1 / 2 < y - of_int f then f + 1
            else if even f then f else f + 1)"

definition fexp :: "real \<Rightarrow> int" where
  "fexp x = max \<lfloor>log 2 \<bar>x\<bar>\<rfloor> (- 1022)"

definition ulp :: "real \<Rightarrow> real" where
  "ulp x = 2 powr (of_int (fexp x) - 52)"

definition huge :: real where
  "huge = 2 powr 1024"

definition fl :: "real \<Rightarrow> npfloat" where
  "fl x = (if x = 0 then Fin 0
           else let r = of_int (rhe (x / ulp x)) * ulp x in
                if huge \<le> \<bar>r\<bar> then (if 0 < x then PInf else MInf) else Fin r)"

text \<open>
  The operations of float64: the exact result, rounded, with the rules of IEEE 754 for
  infinities and \<open>nan\<close>. A numpy division by zero does not raise: it warns and yields
  an infinity or \<open>nan\<close>.
\<close>

fun fneg :: "npfloat \<Rightarrow> npfloat" where
  "fneg (Fin x) = Fin (- x)"
| "fneg PInf = MInf"
| "fneg MInf = PInf"
| "fneg NaN = NaN"

fun fadd :: "npfloat \<Rightarrow> npfloat \<Rightarrow> npfloat" where
  "fadd (Fin x) (Fin y) = fl (x + y)"
| "fadd NaN _ = NaN"
| "fadd _ NaN = NaN"
| "fadd PInf MInf = NaN"
| "fadd MInf PInf = NaN"
| "fadd PInf _ = PInf"
| "fadd _ PInf = PInf"
| "fadd MInf _ = MInf"
| "fadd _ MInf = MInf"

definition fsub :: "npfloat \<Rightarrow> npfloat \<Rightarrow> npfloat" where
  "fsub a b = fadd a (fneg b)"

fun fmul :: "npfloat \<Rightarrow> npfloat \<Rightarrow> npfloat" where
  "fmul (Fin x) (Fin y) = fl (x * y)"
| "fmul NaN _ = NaN"
| "fmul _ NaN = NaN"
| "fmul (Fin x) PInf = (if x = 0 then NaN else if 0 < x then PInf else MInf)"
| "fmul (Fin x) MInf = (if x = 0 then NaN else if 0 < x then MInf else PInf)"
| "fmul PInf (Fin y) = (if y = 0 then NaN else if 0 < y then PInf else MInf)"
| "fmul MInf (Fin y) = (if y = 0 then NaN else if 0 < y then MInf else PInf)"
| "fmul PInf PInf = PInf"
| "fmul MInf MInf = PInf"
| "fmul PInf MInf = MInf"
| "fmul MInf PInf = MInf"

fun np_div :: "npfloat \<Rightarrow> npfloat \<Rightarrow> npfloat" where
  "np_div (Fin x) (Fin y) =
     (if y \<noteq> 0 then fl (x / y) else if 0 < x then PInf else if x < 0 then MInf else NaN)"
| "np_div (Fin x) PInf = Fin 0"
| "np_div (Fin x) MInf = Fin 0"
| "np_div PInf (Fin y) = (if y < 0 then MInf else PInf)"
| "np_div MInf (Fin y) = (if y < 0 then PInf else MInf)"
| "np_div _ _ = NaN"

fun fsqrt :: "npfloat \<Rightarrow> npfloat" where
  "fsqrt (Fin x) = (if x < 0 then NaN else fl (sqrt x))"
| "fsqrt PInf = PInf"
| "fsqrt MInf = NaN"
| "fsqrt NaN = NaN"

text \<open>The literals \<open>0.1\<close> and \<open>0.5\<close> of the source are the floats nearest to them.\<close>

definition tenth :: npfloat where
  "tenth = fl (1 / 10)"

definition half :: npfloat where
  "half = fl (1 / 2)"

text \<open>
  A numpy array of three float64 numbers, with the elementwise operations
  \<open>a + b\<close>, \<open>a - b\<close>, \<open>s * a\<close> and \<open>a / s\<close>, and \<open>numpy.cross\<close>.
\<close>

datatype fvec3 = FVec3 (f0: npfloat) (f1: npfloat) (f2: npfloat)

definition zero64 :: fvec3 where
  "zero64 = FVec3 (Fin 0) (Fin 0) (Fin 0)"

definition fv_add :: "fvec3 \<Rightarrow> fvec3 \<Rightarrow> fvec3" where
  "fv_add a b = FVec3 (fadd (f0 a) (f0 b)) (fadd (f1 a) (f1 b)) (fadd (f2 a) (f2 b))"

definition fv_sub :: "fvec3 \<Rightarrow> fvec3 \<Rightarrow> fvec3" where
  "fv_sub a b = FVec3 (fsub (f0 a) (f0 b)) (fsub (f1 a) (f1 b)) (fsub (f2 a) (f2 b))"

definition fv_scale :: "npfloat \<Rightarrow> fvec3 \<Rightarrow> fvec3" where
  "fv_scale s a = FVec3 (fmul s (f0 a)) (fmul s (f1 a)) (fmul s (f2 a))"

definition fv_div :: "fvec3 \<Rightarrow> npfloat \<Rightarrow> fvec3" where
  "fv_div a s = FVec3 (np_div (f0 a) s) (np_div (f1 a) s) (np_div (f2 a) s)"


text \<open>
  \<open>numpy.linalg.norm\<close> of a point is \<open>sqrt(x.dot(x))\<close>: the squares are summed in
  index order, every product and every sum rounded, and the root of the sum is rounded.
  A square that is too small is lost and one that is too large is an infinity, whatever
  the exact length of the point.
\<close>

definition linalg_norm :: "fvec3 \<Rightarrow> npfloat" where
  "linalg_norm x =
     fsqrt (fadd (fadd (fmul (f0 x) (f0 x)) (fmul (f1 x) (f1 x))) (fmul (f2 x) (f2 x)))"



section \<open>Errors\<close>

text \<open>
  The exceptions the modelled code can raise. \<open>ProjectionError pt dir\<close> is the
  \<open>Error\<close> raised after a failed projection; its message is built from the sample point
  and the projection direction. \<open>ShapeError\<close> is the \<open>Error\<close> of the shape check in
  \<open>_convertTo2D\<close> and \<open>_convertTo1D\<close>, \<open>NoDVGeoError\<close> the one of \<open>_checkDVGeo\<close>.
  \<open>ValueError\<close> and \<open>IndexError\<close> are numpy's own (a reshape or a broadcast that
  does not fit, an index out of range).
\<close>

datatype error =
    ProjectionError fvec3 fvec3
  | ShapeError
  | NoDVGeoError
  | ValueError
  | IndexError

section \<open>The hexahedral volume engine\<close>

subsection \<open>Forward formula\<close>

definition volpym :: "vec3 \<Rightarrow> vec3 \<Rightarrow> vec3 \<Rightarrow> vec3 \<Rightarrow> vec3 \<Rightarrow> real" where
  "volpym a b c d p =
     (let fourth = 1 / 4 in
        (c0 p - fourth * (c0 a + c0 b + c0 c + c0 d))
          * ((c1 a - c1 c) * (c2 b - c2 d) - (c2 a - c2 c) * (c1 b - c1 d))
      + (c1 p - fourth * (c1 a + c1 b + c1 c + c1 d))
          * ((c2 a - c2 c) * (c0 b - c0 d) - (c0 a - c0 c) * (c2 b - c2 d))
      + (c2 p - fourth * (c2 a + c2 b + c2 c + c2 d))
          * ((c0 a - c0 c) * (c1 b - c1 d) - (c1 a - c1 c) * (c0 b - c0 d)))"

text \<open>\<open>numpy.average([x0, ..., x7], axis=0)\<close>: the componentwise mean of eight points.\<close>

definition average8 ::
  "vec3 \<Rightarrow> vec3 \<Rightarrow> vec3 \<Rightarrow> vec3 \<Rightarrow> vec3 \<Rightarrow> vec3 \<Rightarrow> vec3 \<Rightarrow> vec3 \<Rightarrow> vec3" where
  "average8 x0 x1 x2 x3 x4 x5 x6 x7 =
     vdiv (vadd (vadd (vadd (vadd (vadd (vadd (vadd x0 x1) x2) x3) x4) x5) x6) x7) 8"

definition evalVolumeHex ::
  "vec3 \<Rightarrow> vec3 \<Rightarrow> vec3 \<Rightarrow> vec3 \<Rightarrow> vec3 \<Rightarrow> vec3 \<Rightarrow> vec3 \<Rightarrow> vec3 \<Rightarrow> real" where
  "evalVolumeHex x0 x1 x2 x3 x4 x5 x6 x7 =
     (let p = average8 x0 x1 x2 x3 x4 x5 x6 x7;
          V = 0;
          V = V + volpym x0 x1 x3 x2 p;
          V = V + volpym x0 x2 x4 x6 p;
          V = V + volpym x0 x4 x5 x1 p;
          V = V + volpym x1 x5 x7 x3 p;
          V = V + volpym x2 x3 x7 x6 p;
          V = V + volpym x4 x6 x7 x5 p
      in V / 6)"

subsection \<open>Reverse-mode derivative\<close>

text \<open>
  The adjoint routines receive their output arguments as views into the gradient array
  \<open>xb\<close> and update them in place, one component at a time. A view is modelled by the
  index of its row in \<open>xb\<close>; \<open>upd0 xb i f\<close> is the assignment
  \<open>xb[i][0] = f (xb[i][0])\<close>, and likewise \<open>upd1\<close>, \<open>upd2\<close> for the other components.
  Every index used below is in range whenever the reshape of the coordinates succeeded.
\<close>

definition upd0 :: "vec3 list \<Rightarrow> nat \<Rightarrow> (real \<Rightarrow> real) \<Rightarrow> vec3 list" where
  "upd0 xb i f = xb[i := Vec3 (f (c0 (xb ! i))) (c1 (xb ! i)) (c2 (xb ! i))]"

definition upd1 :: "vec3 list \<Rightarrow> nat \<Rightarrow> (real \<Rightarrow> real) \<Rightarrow> vec3 list" where
  "upd1 xb i f = xb[i := Vec3 (c0 (xb ! i)) (f (c1 (xb ! i))) (c2 (xb ! i))]"

definition upd2 :: "vec3 list \<Rightarrow> nat \<Rightarrow> (real \<Rightarrow> real) \<Rightarrow> vec3 list" where
  "upd2 xb i f = xb[i := Vec3 (c0 (xb ! i)) (c1 (xb ! i)) (f (c2 (xb ! i)))]"

text \<open>\<open>add_at xb i v\<close> is the in-place \<open>xb[i] += v\<close>.\<close>

definition add_at :: "vec3 list \<Rightarrow> nat \<Rightarrow> vec3 \<Rightarrow> vec3 list" where
  "add_at xb i v = xb[i := vadd (xb ! i) v]"

definition volpym_b ::
  "vec3 \<Rightarrow> vec3 \<Rightarrow> vec3 \<Rightarrow> vec3 \<Rightarrow> vec3 \<Rightarrow> nat \<Rightarrow> nat \<Rightarrow> nat \<Rightarrow> nat
     \<Rightarrow> vec3 list \<times> vec3 \<Rightarrow> vec3 list \<times> vec3" where
  "volpym_b a b c d p ab bb cb db st =
     (let xb = fst st; pb = snd st;
          fourth = 1 / 4;
          volpymb = 1;
          tempb = ((c1 a - c1 c) * (c2 b - c2 d) - (c2 a - c2 c) * (c1 b - c1 d)) * volpymb;
          tempb0 = - (fourth * tempb);
          tempb1 = (c0 p - fourth * (c0 a + c0 b + c0 c + c0 d)) * volpymb;
          tempb2 = (c2 b - c2 d) * tempb1;
          tempb3 = (c1 a - c1 c) * tempb1;
          tempb4 = - ((c1 b - c1 d) * tempb1);
          tempb5 = - ((c2 a - c2 c) * tempb1);
          tempb6 = ((c2 a - c2 c) * (c0 b - c0 d) - (c0 a - c0 c) * (c2 b - c2 d)) * volpymb;
          tempb7 = - (fourth * tempb6);
          tempb8 = (c1 p - fourth * (c1 a + c1 b + c1 c + c1 d)) * volpymb;
          tempb9 = (c0 b - c0 d) * tempb8;
          tempb10 = (c2 a - c2 c) * tempb8;
          tempb11 = - ((c2 b - c2 d) * tempb8);
          tempb12 = - ((c0 a - c0 c) * tempb8);
          tempb13 = ((c0 a - c0 c) * (c1 b - c1 d) - (c1 a - c1 c) * (c0 b - c0 d)) * volpymb;
          tempb14 = - (fourth * tempb13);
          tempb15 = (c2 p - fourth * (c2 a + c2 b + c2 c + c2 d)) * volpymb;
          tempb16 = (c1 b - c1 d) * tempb15;
          tempb17 = (c0 a - c0 c) * tempb15;
          tempb18 = - ((c0 b - c0 d) * tempb15);
          tempb19 = - ((c1 a - c1 c) * tempb15);
          pb = Vec3 (c0 pb + tempb) (c1 pb) (c2 pb);
          xb = upd0 xb ab (\<lambda>v. v + tempb16 + tempb11 + tempb0);
          xb = upd0 xb bb (\<lambda>v. v + tempb19 + tempb10 + tempb0);
          xb = upd0 xb cb (\<lambda>v. v + tempb0 - tempb11 - tempb16);
          xb = upd0 xb db (\<lambda>v. v + tempb0 - tempb10 - tempb19);
          xb = upd1 xb ab (\<lambda>v. v + tempb18 + tempb7 + tempb2);
          xb = upd1 xb cb (\<lambda>v. v + tempb7 - tempb18 - tempb2);
          xb = upd2 xb bb (\<lambda>v. v + tempb14 + tempb12 + tempb3);
          xb = upd2 xb db (\<lambda>v. v + tempb14 - tempb12 - tempb3);
          xb = upd2 xb ab (\<lambda>v. v + tempb14 + tempb9 + tempb4);
          xb = upd2 xb cb (\<lambda>v. v + tempb14 - tempb9 - tempb4);
          xb = upd1 xb bb (\<lambda>v. v + tempb17 + tempb7 + tempb5);
          xb = upd1 xb db (\<lambda>v. v + tempb7 - tempb17 - tempb5);
          pb = Vec3 (c0 pb) (c1 pb + tempb6) (c2 pb);
          pb = Vec3 (c0 pb) (c1 pb) (c2 pb + tempb13)
      in (xb, pb))"

definition evalVolumeHex_b ::
  "vec3 \<Rightarrow> vec3 \<Rightarrow> vec3 \<Rightarrow> vec3 \<Rightarrow> vec3 \<Rightarrow> vec3 \<Rightarrow> vec3 \<Rightarrow> vec3
     \<Rightarrow> nat \<Rightarrow> nat \<Rightarrow> nat \<Rightarrow> nat \<Rightarrow> nat \<Rightarrow> nat \<Rightarrow> nat \<Rightarrow> nat \<Rightarrow> vec3 list \<Rightarrow> vec3 list" where
  "evalVolumeHex_b x0 x1 x2 x3 x4 x5 x6 x7 x0b x1b x2b x3b x4b x5b x6b x7b xb =
     (let p = average8 x0 x1 x2 x3 x4 x5 x6 x7;
          pb = zero3;
          st = volpym_b x0 x1 x3 x2 p x0b x1b x3b x2b (xb, pb);
          st = volpym_b x0 x2 x4 x6 p x0b x2b x4b x6b st;
          st = volpym_b x0 x4 x5 x1 p x0b x4b x5b x1b st;
          st = volpym_b x1 x5 x7 x3 p x1b x5b x7b x3b st;
          st = volpym_b x2 x3 x7 x6 p x2b x3b x7b x6b st;
          st = volpym_b x4 x6 x7 x5 p x4b x6b x7b x5b st;
          xb = fst st;
          pb = vdiv (snd st) 8;
          xb = add_at xb x0b pb;
          xb = add_at xb x1b pb;
          xb = add_at xb x2b pb;
          xb = add_at xb x3b pb;
          xb = add_at xb x4b pb;
          xb = add_at xb x5b pb;
          xb = add_at xb x6b pb;
          xb = add_at xb x7b pb
      in xb)"

subsection \<open>The volume constraint object\<close>

text \<open>
  The fields of \<open>VolumeConstraint\<close> that its volume methods read or write. \<open>V0\<close> is
  \<open>None\<close> until the constructor has assigned it. The bounds, the scale and the
  \<open>addToPyOpt\<close> flag are only handed to the optimizer and are left out, and so is the
  reference to the shared \<open>DVGeo\<close> object, which is passed explicitly where it is used.
\<close>

record VolumeConstraint =
  vc_name :: string
  nSpan :: nat
  nChord :: nat
  vc_coords :: "vec3 list"
  vc_scaled :: bool
  flipVolume :: bool
  V0 :: "real option"

text \<open>
  \<open>coords.reshape((nSpan, nChord, 2, 3))\<close> needs \<open>nSpan * nChord * 2\<close> points and raises
  \<open>ValueError\<close> otherwise; \<open>x[i, j, k]\<close> is then row \<open>(i * nChord + j) * 2 + k\<close>.
\<close>

definition xrow :: "nat \<Rightarrow> nat \<Rightarrow> nat \<Rightarrow> nat \<Rightarrow> nat" where
  "xrow nc i j k = (i * nc + j) * 2 + k"

text \<open>The cells in the order of the two loops: \<open>j\<close> outside, \<open>i\<close> inside.\<close>

definition cells :: "nat \<Rightarrow> nat \<Rightarrow> (nat \<times> nat) list" where
  "cells ns nc = concat (map (\<lambda>j. map (\<lambda>i. (i, j)) [0..<ns - 1]) [0..<nc - 1])"

definition hexAt :: "nat \<Rightarrow> vec3 list \<Rightarrow> nat \<times> nat \<Rightarrow> real" where
  "hexAt nc x ij =
     (let i = fst ij; j = snd ij in
      evalVolumeHex
        (x ! xrow nc i j 0) (x ! xrow nc (i + 1) j 0)
        (x ! xrow nc i (j + 1) 0) (x ! xrow nc (i + 1) (j + 1) 0)
        (x ! xrow nc i j 1) (x ! xrow nc (i + 1) j 1)
        (x ! xrow nc i (j + 1) 1) (x ! xrow nc (i + 1) (j + 1) 1))"

text \<open>The signed sum accumulated by the loops of \<open>evalVolume\<close>, before the sign test.\<close>

definition rawVolume :: "nat \<Rightarrow> nat \<Rightarrow> vec3 list \<Rightarrow> real" where
  "rawVolume ns nc x = foldl (\<lambda>Volume ij. Volume + hexAt nc x ij) 0 (cells ns nc)"

definition evalVolume :: "VolumeConstraint \<Rightarrow> error + real \<times> VolumeConstraint" where
  "evalVolume self =
     (if length (vc_coords self) \<noteq> nSpan self * nChord self * 2 then Inl ValueError
      else
        let Volume = rawVolume (nSpan self) (nChord self) (vc_coords self)
        in if Volume < 0 then Inr (- Volume, self\<lparr>flipVolume := True\<rparr>)
           else Inr (Volume, self))"

definition hexAt_b :: "nat \<Rightarrow> vec3 list \<Rightarrow> vec3 list \<Rightarrow> nat \<times> nat \<Rightarrow> vec3 list" where
  "hexAt_b nc x xb ij =
     (let i = fst ij; j = snd ij in
      evalVolumeHex_b
        (x ! xrow nc i j 0) (x ! xrow nc (i + 1) j 0)
        (x ! xrow nc i (j + 1) 0) (x ! xrow nc (i + 1) (j + 1) 0)
        (x ! xrow nc i j 1) (x ! xrow nc (i + 1) j 1)
        (x ! xrow nc i (j + 1) 1) (x ! xrow nc (i + 1) (j + 1) 1)
        (xrow nc i j 0) (xrow nc (i + 1) j 0)
        (xrow nc i (j + 1) 0) (xrow nc (i + 1) (j + 1) 0)
        (xrow nc i j 1) (xrow nc (i + 1) j 1)
        (xrow nc i (j + 1) 1) (xrow nc (i + 1) (j + 1) 1)
        xb)"

definition evalVolumeSens :: "VolumeConstraint \<Rightarrow> error + vec3 list" where
  "evalVolumeSens self =
     (if length (vc_coords self) \<noteq> nSpan self * nChord self * 2 then Inl ValueError
      else
        let x = vc_coords self;
            xb = replicate (length x) zero3;
            xb = foldl (hexAt_b (nChord self) x) xb (cells (nSpan self) (nChord self));
            xb = map (\<lambda>v. vdiv v 6) xb;
            xb = (if flipVolume self then map vneg xb else xb)
        in Inr xb)"


text \<open>
  The value \<open>evalVolume\<close> returns, for statements about it as a function of the
  coordinates. The \<open>Inl\<close> case does not arise when the reshape succeeds.
\<close>

definition returnedVolume :: "VolumeConstraint \<Rightarrow> real" where
  "returnedVolume self = (case evalVolume self of Inr (V, _) \<Rightarrow> V | Inl _ \<Rightarrow> 0)"

text \<open>
  Coordinate \<open>k\<close> (0, 1 or 2) of a point, and the point with that coordinate replaced;
  \<open>moveCoord x n k t\<close> is the coordinate array \<open>x\<close> with \<open>x[n][k]\<close> set to \<open>t\<close>.
\<close>

definition getc :: "nat \<Rightarrow> vec3 \<Rightarrow> real" where
  "getc k v = (if k = 0 then c0 v else if k = 1 then c1 v else c2 v)"

definition setc :: "nat \<Rightarrow> real \<Rightarrow> vec3 \<Rightarrow> vec3" where
  "setc k r v = (if k = 0 then Vec3 r (c1 v) (c2 v)
                 else if k = 1 then Vec3 (c0 v) r (c2 v)
                 else Vec3 (c0 v) (c1 v) r)"

definition moveCoord :: "vec3 list \<Rightarrow> nat \<Rightarrow> nat \<Rightarrow> real \<Rightarrow> vec3 list" where
  "moveCoord x n k t = x[n := setc k t (x ! n)]"

text \<open>
  Reversing the winding order of every cell: the up and the down point of every grid
  node change places, that is, rows \<open>2m\<close> and \<open>2m + 1\<close> of the coordinate array.
\<close>

definition reflectLayers :: "vec3 list \<Rightarrow> vec3 list" where
  "reflectLayers x = map (\<lambda>r. x ! (if even r then r + 1 else r - 1)) [0..<length x]"

section \<open>numpy arrays of bounds and scales\<close>

text \<open>
  An array is its shape and its items, read by a full index. A Python scalar is kept apart
  from an array, as \<open>numpy.isscalar\<close> tells them apart.
\<close>

datatype ndarray = Nd (shape: "nat list") (item: "nat list \<Rightarrow> real")

datatype pyvalue = PyScalar real | PyArray ndarray

text \<open>
  numpy's broadcasting of two shapes, aligned at their last axes: two lengths fit when
  they are equal or one of them is 1. \<open>bcast\<close> works on the reversed shapes.
\<close>

fun bcast :: "nat list \<Rightarrow> nat list \<Rightarrow> nat list option" where
  "bcast [] ys = Some ys"
| "bcast (x # xs) [] = Some (x # xs)"
| "bcast (x # xs) (y # ys) =
     (if x = y \<or> y = 1 then map_option ((#) x) (bcast xs ys)
      else if x = 1 then map_option ((#) y) (bcast xs ys)
      else None)"

definition broadcast_shapes :: "nat list \<Rightarrow> nat list \<Rightarrow> nat list option" where
  "broadcast_shapes s1 s2 = map_option rev (bcast (rev s1) (rev s2))"

text \<open>The index into an operand of shape \<open>s\<close> that a result index \<open>idx\<close> reads.\<close>

definition bindex :: "nat list \<Rightarrow> nat list \<Rightarrow> nat list" where
  "bindex s idx =
     map (\<lambda>(d, i). if d = 1 then 0 else i) (zip s (drop (length idx - length s) idx))"

definition as_array :: "pyvalue \<Rightarrow> ndarray" where
  "as_array v = (case v of PyScalar r \<Rightarrow> Nd [] (\<lambda>_. r) | PyArray a \<Rightarrow> a)"

definition np_mul :: "pyvalue \<Rightarrow> ndarray \<Rightarrow> error + pyvalue" where
  "np_mul v b =
     (let a = as_array v in
      case broadcast_shapes (shape a) (shape b) of
        None \<Rightarrow> Inl ValueError
      | Some sh \<Rightarrow>
          Inr (PyArray (Nd sh (\<lambda>idx. item a (bindex (shape a) idx) * item b (bindex (shape b) idx)))))"

definition ones :: "nat list \<Rightarrow> ndarray" where
  "ones sh = Nd sh (\<lambda>_. 1)"

definition atleast_2d :: "pyvalue \<Rightarrow> ndarray" where
  "atleast_2d v =
     (let a = as_array v in
      case shape a of
        [] \<Rightarrow> Nd [1, 1] (\<lambda>_. item a [])
      | [n] \<Rightarrow> Nd [1, n] (\<lambda>idx. item a (tl idx))
      | _ \<Rightarrow> a)"

definition atleast_1d :: "pyvalue \<Rightarrow> ndarray" where
  "atleast_1d v =
     (let a = as_array v in
      case shape a of
        [] \<Rightarrow> Nd [1] (\<lambda>_. item a [])
      | _ \<Rightarrow> a)"

text \<open>
  \<open>numpy.isscalar\<close> is a function. Called on a value, it tells a scalar from an array.
  Used as a condition without being called, the function object itself is tested, and a
  Python function object is always true.
\<close>

definition isscalar :: "pyvalue \<Rightarrow> bool" where
  "isscalar v = (case v of PyScalar _ \<Rightarrow> True | PyArray _ \<Rightarrow> False)"

definition truth_of_function :: "('a \<Rightarrow> 'b) \<Rightarrow> bool" where
  "truth_of_function f = True"

definition convertTo2D :: "pyvalue \<Rightarrow> nat \<Rightarrow> nat \<Rightarrow> error + pyvalue" where
  "convertTo2D v dim1 dim2 =
     (if truth_of_function isscalar then np_mul v (ones [dim1, dim2])
      else
        let temp = atleast_2d v in
        if shape temp ! 0 = dim1 \<and> shape temp ! 1 = dim2 then Inr v
        else Inl ShapeError)"

definition convertTo1D :: "pyvalue \<Rightarrow> nat \<Rightarrow> error + pyvalue" where
  "convertTo1D v dim1 =
     (if truth_of_function isscalar then np_mul v (ones [dim1])
      else
        let temp = atleast_1d v in
        if shape temp ! 0 = dim1 then Inr v
        else Inl ShapeError)"

text \<open>
  The helpers as their docstrings describe them, with the predicate called on the value:
  the reading against which the actual guard is compared.
\<close>

definition convertTo2D_called :: "pyvalue \<Rightarrow> nat \<Rightarrow> nat \<Rightarrow> error + pyvalue" where
  "convertTo2D_called v dim1 dim2 =
     (if isscalar v then np_mul v (ones [dim1, dim2])
      else
        let temp = atleast_2d v in
        if shape temp ! 0 = dim1 \<and> shape temp ! 1 = dim2 then Inr v
        else Inl ShapeError)"

definition convertTo1D_called :: "pyvalue \<Rightarrow> nat \<Rightarrow> error + pyvalue" where
  "convertTo1D_called v dim1 =
     (if isscalar v then np_mul v (ones [dim1])
      else
        let temp = atleast_1d v in
        if shape temp ! 0 = dim1 then Inr v
        else Inl ShapeError)"




section \<open>The external geometry parameterization\<close>

text \<open>
  Modelled from the spec: the \<open>DVGeometry\<close> object is not part of the two source files.
  Of its interface the constraints use \<open>addPointSet(points, name)\<close>, which registers a
  named point set, \<open>update(name)\<close>, which returns the current coordinates of a
  registered set, and \<open>DV_listLocal\<close>, the insertion-ordered groups of local shape
  variables, each with a coefficient-index list \<open>coefList\<close> (rows whose first entry is a
  global coefficient index) and a count \<open>nVal\<close>. \<open>pointSets\<close> records the
  \<open>addPointSet\<close> calls in order. The array that \<open>update\<close> returns is an argument of
  the methods that call it.
\<close>

record geoDVLocal =
  coefList :: "(int \<times> int) list"
  nVal :: nat

record DVGeometry =
  pointSets :: "(string \<times> fvec3 list) list"
  DV_listLocal :: "(string \<times> geoDVLocal) list"

definition addPointSet :: "DVGeometry \<Rightarrow> fvec3 list \<Rightarrow> string \<Rightarrow> DVGeometry" where
  "addPointSet g pts nm = g\<lparr>pointSets := pointSets g @ [(nm, pts)]\<rparr>"

text \<open>
  Modelled from the spec: \<open>geo_utils.eDist\<close>, the Euclidean distance of two points,
  taken to be computed as the constructors compute it, as the norm of the difference.
\<close>

definition eDist :: "fvec3 \<Rightarrow> fvec3 \<Rightarrow> npfloat" where
  "eDist p q = linalg_norm (fv_sub p q)"

section \<open>Thickness constraints\<close>

record ThicknessConstraint =
  tc_name :: string
  tc_coords :: "fvec3 list"
  tc_nCon :: nat
  tc_lower :: pyvalue
  tc_upper :: pyvalue
  tc_scaled :: bool
  tc_scale :: pyvalue
  tc_addToPyOpt :: bool
  D0 :: "npfloat list"

text \<open>
  The constructor registers the coordinates with \<open>DVGeo\<close> and computes the reference
  lengths; it returns the new object and the \<open>DVGeo\<close> it has changed.
\<close>

definition ThicknessConstraint_init ::
  "string \<Rightarrow> fvec3 list \<Rightarrow> pyvalue \<Rightarrow> pyvalue \<Rightarrow> bool \<Rightarrow> pyvalue \<Rightarrow> DVGeometry \<Rightarrow> bool
     \<Rightarrow> ThicknessConstraint \<times> DVGeometry" where
  "ThicknessConstraint_init nm coords lower upper scaled scale dvgeo addToPyOpt =
     (let nCon = length coords div 2;
          dvgeo = addPointSet dvgeo coords nm;
          d0 = map (\<lambda>i. linalg_norm (fv_sub (coords ! (2 * i)) (coords ! (2 * i + 1)))) [0..<nCon]
      in (\<lparr>tc_name = nm, tc_coords = coords, tc_nCon = nCon, tc_lower = lower,
            tc_upper = upper, tc_scaled = scaled, tc_scale = scale,
            tc_addToPyOpt = addToPyOpt, D0 = d0\<rparr>, dvgeo))"

text \<open>
  \<open>evalFunctions\<close>: \<open>newCoords\<close> is the array returned by \<open>DVGeo.update(self.name)\<close>.
  Reading row \<open>2 * i + 1\<close> of an array that is too short raises \<open>IndexError\<close>.
\<close>

definition tc_evalFunctions ::
  "ThicknessConstraint \<Rightarrow> fvec3 list \<Rightarrow> (string \<rightharpoonup> npfloat list)
     \<Rightarrow> error + ThicknessConstraint \<times> (string \<rightharpoonup> npfloat list)" where
  "tc_evalFunctions self newCoords funcs =
     (let self = self\<lparr>tc_coords := newCoords\<rparr> in
      if list_ex (\<lambda>i. length newCoords \<le> 2 * i + 1) [0..<tc_nCon self] then Inl IndexError
      else
        let D = map (\<lambda>i.
                  let d = linalg_norm (fv_sub (tc_coords self ! (2 * i)) (tc_coords self ! (2 * i + 1)))
                  in if tc_scaled self then np_div d (D0 self ! i) else d)
                [0..<tc_nCon self]
        in Inr (self, funcs(tc_name self \<mapsto> D)))"

section \<open>Thickness-to-chord constraints\<close>

record ThicknessToChordConstraint =
  ttc_name :: string
  ttc_coords :: "fvec3 list"
  ttc_nCon :: nat
  ttc_lower :: pyvalue
  ttc_upper :: pyvalue
  ttc_scale :: pyvalue
  ttc_addToPyOpt :: bool
  ToC0 :: "npfloat list"

definition ThicknessToChordConstraint_init ::
  "string \<Rightarrow> fvec3 list \<Rightarrow> pyvalue \<Rightarrow> pyvalue \<Rightarrow> pyvalue \<Rightarrow> DVGeometry \<Rightarrow> bool
     \<Rightarrow> ThicknessToChordConstraint \<times> DVGeometry" where
  "ThicknessToChordConstraint_init nm coords lower upper scale dvgeo addToPyOpt =
     (let nCon = length coords div 4;
          dvgeo = addPointSet dvgeo coords nm;
          toc0 = map (\<lambda>i.
                   let t = linalg_norm (fv_sub (coords ! (4 * i)) (coords ! (4 * i + 1)));
                       c = linalg_norm (fv_sub (coords ! (4 * i + 2)) (coords ! (4 * i + 3)))
                   in np_div t c)
                 [0..<nCon]
      in (\<lparr>ttc_name = nm, ttc_coords = coords, ttc_nCon = nCon, ttc_lower = lower,
            ttc_upper = upper, ttc_scale = scale, ttc_addToPyOpt = addToPyOpt,
            ToC0 = toc0\<rparr>, dvgeo))"

definition ttc_evalFunctions ::
  "ThicknessToChordConstraint \<Rightarrow> fvec3 list \<Rightarrow> (string \<rightharpoonup> npfloat list)
     \<Rightarrow> error + ThicknessToChordConstraint \<times> (string \<rightharpoonup> npfloat list)" where
  "ttc_evalFunctions self newCoords funcs =
     (let self = self\<lparr>ttc_coords := newCoords\<rparr> in
      if list_ex (\<lambda>i. length newCoords \<le> 4 * i + 3) [0..<ttc_nCon self] then Inl IndexError
      else
        let ToC = map (\<lambda>i.
                    let t = eDist (ttc_coords self ! (4 * i)) (ttc_coords self ! (4 * i + 1));
                        c = eDist (ttc_coords self ! (4 * i + 2)) (ttc_coords self ! (4 * i + 3))
                    in np_div (np_div t c) (ToC0 self ! i))
                  [0..<ttc_nCon self]
        in Inr (self, funcs(ttc_name self \<mapsto> ToC)))"

section \<open>Construction of a volume constraint\<close>


section \<open>Leading and trailing edge constraints\<close>

record LeTeConstraint =
  lt_name :: string
  indSetA :: "int list"
  indSetB :: "int list"
  ncon :: nat
  wrt :: "string list"
  jac :: "(string \<times> real list list) list"
  conIndices :: "(nat \<times> nat) list"

text \<open>
  The inner loop over \<open>k\<close>: \<open>up\<close> and \<open>down\<close> end as the last positions in \<open>temp\<close>
  whose first entry is \<open>a\<close>, respectively \<open>b\<close>, or stay \<open>None\<close>.
\<close>

definition findUpDown :: "(int \<times> int) list \<Rightarrow> int \<Rightarrow> int \<Rightarrow> nat option \<times> nat option" where
  "findUpDown temp a b =
     foldl (\<lambda>(up, down) k.
              let up = (if fst (temp ! k) = a then Some k else up);
                  down = (if fst (temp ! k) = b then Some k else down)
              in (up, down))
           (None, None) [0..<length temp]"

text \<open>
  The loop over \<open>j\<close>. \<open>indSetB[j]\<close> is read inside the loop over \<open>k\<close>, so a list
  \<open>indSetB\<close> that is too short raises \<open>IndexError\<close> only when \<open>temp\<close> is not empty.
\<close>

fun collectCons ::
  "(int \<times> int) list \<Rightarrow> int list \<Rightarrow> int list \<Rightarrow> nat list \<Rightarrow> (nat \<times> nat) list
     \<Rightarrow> error + (nat \<times> nat) list" where
  "collectCons temp A B [] cons = Inr cons"
| "collectCons temp A B (j # js) cons =
     (if temp \<noteq> [] \<and> length B \<le> j then Inl IndexError
      else case findUpDown temp (A ! j) (B ! j) of
             (Some up, Some down) \<Rightarrow> collectCons temp A B js (cons @ [(up, down)])
           | _ \<Rightarrow> collectCons temp A B js cons)"

text \<open>
  \<open>sparse.lil_matrix((ncon, ndv))\<close> is a matrix of zeros, kept here as its list of rows;
  an assignment outside its columns raises \<open>IndexError\<close>.
\<close>

definition setEntry :: "real list list \<Rightarrow> nat \<Rightarrow> nat \<Rightarrow> real \<Rightarrow> error + real list list" where
  "setEntry m i col v =
     (if i < length m \<and> col < length (m ! i) then Inr (m[i := (m ! i)[col := v]])
      else Inl IndexError)"

fun fillJacobian :: "(nat \<times> nat) list \<Rightarrow> nat list \<Rightarrow> real list list \<Rightarrow> error + real list list" where
  "fillJacobian cons [] jacobian = Inr jacobian"
| "fillJacobian cons (i # is) jacobian =
     (case setEntry jacobian i (fst (cons ! i)) 1 of
        Inl e \<Rightarrow> Inl e
      | Inr jacobian \<Rightarrow>
          (case setEntry jacobian i (snd (cons ! i)) 1 of
             Inl e \<Rightarrow> Inl e
           | Inr jacobian \<Rightarrow> fillJacobian cons is jacobian))"

text \<open>Assignment \<open>d[key] = v\<close> to an insertion-ordered dictionary.\<close>

fun odict_set :: "('k \<times> 'v) list \<Rightarrow> 'k \<Rightarrow> 'v \<Rightarrow> ('k \<times> 'v) list" where
  "odict_set [] k v = [(k, v)]"
| "odict_set ((k', v') # d) k v = (if k' = k then (k, v) # d else (k', v') # odict_set d k v)"

text \<open>The body of the loop over the groups of \<open>DV_listLocal\<close>, for one group.\<close>

definition finalizeGroup :: "string \<times> geoDVLocal \<Rightarrow> LeTeConstraint \<Rightarrow> error + LeTeConstraint" where
  "finalizeGroup kg self =
     (let key = fst kg;
          temp = coefList (snd kg)
      in case collectCons temp (indSetA self) (indSetB self) [0..<length (indSetA self)] [] of
           Inl e \<Rightarrow> Inl e
         | Inr cons \<Rightarrow>
             let ncon' = length cons in
             (case (if ncon' > 0
                    then (let self = self\<lparr>wrt := wrt self @ [key]\<rparr>;
                              ndv = nVal (snd kg);
                              jacobian = replicate ncon' (replicate ndv 0)
                          in case fillJacobian cons [0..<ncon'] jacobian of
                               Inl e \<Rightarrow> Inl e
                             | Inr jacobian \<Rightarrow> Inr (self\<lparr>jac := odict_set (jac self) key jacobian\<rparr>))
                    else Inr self) of
                Inl e \<Rightarrow> Inl e
              | Inr self \<Rightarrow>
                  Inr (self\<lparr>ncon := ncon self + length cons,
                            conIndices := conIndices self @ cons\<rparr>)))"

fun finalizeGroups :: "(string \<times> geoDVLocal) list \<Rightarrow> LeTeConstraint \<Rightarrow> error + LeTeConstraint" where
  "finalizeGroups [] self = Inr self"
| "finalizeGroups (kg # rest) self =
     (case finalizeGroup kg self of Inl e \<Rightarrow> Inl e | Inr self \<Rightarrow> finalizeGroups rest self)"

definition finalize :: "DVGeometry \<Rightarrow> LeTeConstraint \<Rightarrow> error + LeTeConstraint" where
  "finalize dvgeo self = finalizeGroups (DV_listLocal dvgeo) self"

definition LeTeConstraint_init ::
  "string \<Rightarrow> int list \<Rightarrow> int list \<Rightarrow> DVGeometry \<Rightarrow> error + LeTeConstraint" where
  "LeTeConstraint_init nm A B dvgeo =
     finalize dvgeo \<lparr>lt_name = nm, indSetA = A, indSetB = B, ncon = 0, wrt = [],
                     jac = [], conIndices = []\<rparr>"


section \<open>The registry\<close>

text \<open>
  The projector, the curve evaluator and the transfinite interpolation are external
  primitives and are parameters of the model: \<open>projectNode pt dir surf\<close> returns the up
  point, the down point and the failure flag; \<open>grid2d leList teList nSpan nChord\<close> is
  the grid \<open>X\<close> that \<open>tfi_2d\<close> builds from the four boundary curves sampled at
  \<open>linspace\<close> values; \<open>polyline ptList nCon\<close> is the curve through \<open>ptList\<close> sampled at
  \<open>nCon\<close> values.
\<close>

type_synonym triSoup = "fvec3 list \<times> fvec3 list \<times> fvec3 list"

record externals =
  projectNode :: "fvec3 \<Rightarrow> fvec3 \<Rightarrow> triSoup option \<Rightarrow> fvec3 \<times> fvec3 \<times> bool"
  grid2d :: "fvec3 list \<Rightarrow> fvec3 list \<Rightarrow> nat \<Rightarrow> nat \<Rightarrow> fvec3 list list"
  polyline :: "fvec3 list \<Rightarrow> nat \<Rightarrow> fvec3 list"

datatype thickEntry =
    Thickness ThicknessConstraint
  | ThicknessToChord ThicknessToChordConstraint

text \<open>
  \<open>thickCon\<close>, \<open>volumeCon\<close> and \<open>LeTeCon\<close> are insertion-ordered dictionaries.
  \<open>surf\<close> holds \<open>p0\<close>, \<open>v1\<close>, \<open>v2\<close>, and is \<open>None\<close> before \<open>setSurface\<close>.
  The \<open>DVGeo\<close> object is shared with every constraint built from the registry, so a
  constructor's \<open>addPointSet\<close> changes the registry's \<open>DVGeo\<close>.
\<close>

record DVConstraints =
  thickCon :: "(string \<times> thickEntry) list"
  volumeCon :: "(string \<times> VolumeConstraint) list"
  LeTeCon :: "(string \<times> LeTeConstraint) list"
  DVGeo :: "DVGeometry option"
  surf :: "triSoup option"

text \<open>A call of \<open>projectNode\<close>: the point, the direction and the failure flag returned.\<close>

type_synonym pcall = "fvec3 \<times> fvec3 \<times> bool"

text \<open>\<open>'%d' % n\<close> for a length \<open>n\<close>.\<close>

function show_nat :: "nat \<Rightarrow> string" where
  "show_nat n =
     (if n < 10 then [char_of (48 + n)]
      else show_nat (n div 10) @ [char_of (48 + n mod 10)])"
  by pat_completeness auto
termination
  by (relation "measure id") auto







definition thickName :: "string option \<Rightarrow> string \<Rightarrow> nat \<Rightarrow> string" where
  "thickName nm prefix n = (case nm of None \<Rightarrow> prefix @ show_nat n | Some c \<Rightarrow> c)"

text \<open>
  Each \<open>add\<close> method returns its outcome, the registry after the call, and the
  \<open>projectNode\<close> calls it made. The volume engine is modelled over points of reals:
  when a projected coordinate is not finite the model of \<open>addVolumeConstraint\<close> does
  not follow the source further and stops with \<open>NonFinite\<close>.
\<close>

datatype outcome = Returned | Raised error | NonFinite





section \<open>Thickness-to-chord constraints along a polyline\<close>

text \<open>
  The \<open>chordDir\<close> argument is a list or an array of three numbers. \<open>chordDir /= r\<close>
  divides an array in place, so the caller's array changes; a list has no in-place
  division, so Python evaluates \<open>chordDir / r\<close>, which numpy answers with a new array,
  and binds the local name to it, leaving the caller's list as it was.
  \<open>idiv chordDir r\<close> is the pair of the caller's object after \<open>chordDir /= r\<close> and the
  array the local name is then bound to.
\<close>

datatype pyvec = PyList fvec3 | NdArray fvec3

definition numbers :: "pyvec \<Rightarrow> fvec3" where
  "numbers chordDir = (case chordDir of PyList v \<Rightarrow> v | NdArray v \<Rightarrow> v)"

definition idiv :: "pyvec \<Rightarrow> npfloat \<Rightarrow> pyvec \<times> fvec3" where
  "idiv chordDir r =
     (case chordDir of
        NdArray v \<Rightarrow> (NdArray (fv_div v r), fv_div v r)
      | PyList v \<Rightarrow> (PyList v, fv_div v r))"

text \<open>
  The loop of \<open>addThicknessToChordConstraints1D\<close>; \<open>chordDir\<close> is the normalized
  direction.
\<close>

fun ttc1DLoop ::
  "externals \<Rightarrow> triSoup option \<Rightarrow> fvec3 list \<Rightarrow> fvec3 \<Rightarrow> fvec3 \<Rightarrow> nat list \<Rightarrow> fvec3 list
     \<Rightarrow> pcall list \<Rightarrow> pcall list \<times> (error + fvec3 list)" where
  "ttc1DLoop ext s X axis chordDir [] coords calls = (calls, Inr coords)"
| "ttc1DLoop ext s X axis chordDir (i # rest) coords calls =
     (if length X \<le> i then (calls, Inl IndexError)
      else case projectNode ext (X ! i) axis s of
        (up, down, fail) \<Rightarrow>
          if fail then (calls @ [(X ! i, axis, True)], Inl (ProjectionError (X ! i) axis))
          else
            let coords = coords[4 * i := up];
                coords = coords[4 * i + 1 := down];
                height = linalg_norm (fv_sub (coords ! (4 * i)) (coords ! (4 * i + 1)));
                coords = coords[4 * i + 2 := fv_scale half (fv_add up down)];
                coords = coords[4 * i + 3 :=
                           fv_add (coords ! (4 * i + 2)) (fv_scale (fmul tenth height) chordDir)]
            in ttc1DLoop ext s X axis chordDir rest coords (calls @ [(X ! i, axis, False)]))"

text \<open>
  The method returns, besides the outcome, the registry and the calls, the caller's
  \<open>chordDir\<close> object as the call leaves it.
\<close>

definition addThicknessToChordConstraints1D ::
  "externals \<Rightarrow> fvec3 list \<Rightarrow> nat \<Rightarrow> fvec3 \<Rightarrow> pyvec \<Rightarrow> pyvalue \<Rightarrow> pyvalue \<Rightarrow> pyvalue
     \<Rightarrow> string option \<Rightarrow> bool \<Rightarrow> DVConstraints
     \<Rightarrow> outcome \<times> DVConstraints \<times> pcall list \<times> pyvec" where
  "addThicknessToChordConstraints1D ext ptList nCon axis chordDir lower upper scale nm addToPyOpt self =
     (case DVGeo self of
        None \<Rightarrow> (Raised NoDVGeoError, self, [], chordDir)
      | Some dvgeo \<Rightarrow>
         let X = polyline ext ptList nCon;
             coords = replicate (nCon * 4) zero64;
             (callerChordDir, chordDir) = idiv chordDir (linalg_norm (numbers chordDir))
         in (case ttc1DLoop ext (surf self) X axis chordDir [0..<nCon] coords [] of
               (calls, Inl e) \<Rightarrow> (Raised e, self, calls, callerChordDir)
             | (calls, Inr coords) \<Rightarrow>
                 let conName = thickName nm ''thickness_to_chord_constraints_''
                                 (length (thickCon self));
                     (con, dvgeo) = ThicknessToChordConstraint_init conName coords lower
                                      upper scale dvgeo addToPyOpt
                 in (Returned,
                     self\<lparr>thickCon := odict_set (thickCon self) conName (ThicknessToChord con),
                          DVGeo := Some dvgeo\<rparr>,
                     calls, callerChordDir)))"

section \<open>Concrete configurations\<close>

text \<open>
  The unit cube as one cell of a \<open>2 \<times> 2\<close> grid, in the layout of the reshape: row
  \<open>(i * 2 + j) * 2 + k\<close> holds the point with span index \<open>i\<close>, chord index \<open>j\<close> and
  layer \<open>k\<close>, so that \<open>x0 = (0,0,0)\<close>, \<open>x1 = (1,0,0)\<close>, \<open>x2 = (0,1,0)\<close>,
  \<open>x3 = (1,1,0)\<close> and \<open>x4\<close> to \<open>x7\<close> are the same points at height 1.
\<close>

definition unitCube :: "vec3 list" where
  "unitCube = [Vec3 0 0 0, Vec3 0 0 1, Vec3 0 1 0, Vec3 0 1 1,
               Vec3 1 0 0, Vec3 1 0 1, Vec3 1 1 0, Vec3 1 1 1]"

text \<open>The unit cube with the corner \<open>x6\<close> moved from \<open>(0,1,1)\<close> to \<open>(0,2,1)\<close>.\<close>

definition skewCell :: "vec3 list" where
  "skewCell = [Vec3 0 0 0, Vec3 0 0 1, Vec3 0 1 0, Vec3 0 2 1,
               Vec3 1 0 0, Vec3 1 0 1, Vec3 1 1 0, Vec3 1 1 1]"

text \<open>A cell of no thickness: the up and the down layer are the same unit square.\<close>

definition flatCell :: "vec3 list" where
  "flatCell = [Vec3 0 0 0, Vec3 0 0 0, Vec3 0 1 0, Vec3 0 1 0,
               Vec3 1 0 0, Vec3 1 0 0, Vec3 1 1 0, Vec3 1 1 0]"

text \<open>A volume constraint over one cell, as the constructor sets its fields up.\<close>

definition oneCell :: "vec3 list \<Rightarrow> VolumeConstraint" where
  "oneCell x = \<lparr>vc_name = ''volume_constraint_0'', nSpan = 2, nChord = 2, vc_coords = x,
                 vc_scaled = True, flipVolume = False, V0 = None\<rparr>"

definition vsum :: "vec3 list \<Rightarrow> vec3" where
  "vsum xs = foldl vadd zero3 xs"

section \<open>Auxiliary notions for the proofs\<close>

text \<open>
  The pairing of a gradient array with a direction array, the scalar triple product in
  which \<open>volpym\<close> is written, a point and an array moved along a direction, and the
  directional derivatives of \<open>volpym\<close> and of the pyramid sum of one cell.
\<close>

definition dotl :: "vec3 list \<Rightarrow> vec3 list \<Rightarrow> real" where
  "dotl G D = (\<Sum>i<length G. dot (G ! i) (D ! i))"

definition triple :: "vec3 \<Rightarrow> vec3 \<Rightarrow> vec3 \<Rightarrow> real" where
  "triple q u w = c0 q * (c1 u * c2 w - c2 u * c1 w)
                + c1 q * (c2 u * c0 w - c0 u * c2 w)
                + c2 q * (c0 u * c1 w - c1 u * c0 w)"

definition qmid :: "vec3 \<Rightarrow> vec3 \<Rightarrow> vec3 \<Rightarrow> vec3 \<Rightarrow> vec3 \<Rightarrow> vec3" where
  "qmid a b c d p = Vec3 (c0 p - 1 / 4 * (c0 a + c0 b + c0 c + c0 d))
                         (c1 p - 1 / 4 * (c1 a + c1 b + c1 c + c1 d))
                         (c2 p - 1 / 4 * (c2 a + c2 b + c2 c + c2 d))"

definition pert :: "vec3 \<Rightarrow> vec3 \<Rightarrow> real \<Rightarrow> vec3" where
  "pert x d t = vadd x (smul t d)"

definition pertl :: "vec3 list \<Rightarrow> vec3 list \<Rightarrow> real \<Rightarrow> vec3 list" where
  "pertl x D t = map (\<lambda>k. pert (x ! k) (D ! k) t) [0..<length x]"

definition dvolpym ::
  "vec3 \<Rightarrow> vec3 \<Rightarrow> vec3 \<Rightarrow> vec3 \<Rightarrow> vec3 \<Rightarrow> vec3 \<Rightarrow> vec3 \<Rightarrow> vec3 \<Rightarrow> vec3 \<Rightarrow> vec3 \<Rightarrow> real" where
  "dvolpym a b c d p da db dc dd dp =
       triple (qmid da db dc dd dp) (vsub a c) (vsub b d)
     + triple (qmid a b c d p) (vsub da dc) (vsub b d)
     + triple (qmid a b c d p) (vsub a c) (vsub db dd)"

definition dhex ::
  "vec3 \<Rightarrow> vec3 \<Rightarrow> vec3 \<Rightarrow> vec3 \<Rightarrow> vec3 \<Rightarrow> vec3 \<Rightarrow> vec3 \<Rightarrow> vec3
   \<Rightarrow> vec3 \<Rightarrow> vec3 \<Rightarrow> vec3 \<Rightarrow> vec3 \<Rightarrow> vec3 \<Rightarrow> vec3 \<Rightarrow> vec3 \<Rightarrow> vec3 \<Rightarrow> real" where
  "dhex x0 x1 x2 x3 x4 x5 x6 x7 d0 d1 d2 d3 d4 d5 d6 d7 =
       (let p = average8 x0 x1 x2 x3 x4 x5 x6 x7;
            dp = average8 d0 d1 d2 d3 d4 d5 d6 d7
        in dvolpym x0 x1 x3 x2 p d0 d1 d3 d2 dp
         + dvolpym x0 x2 x4 x6 p d0 d2 d4 d6 dp
         + dvolpym x0 x4 x5 x1 p d0 d4 d5 d1 dp
         + dvolpym x1 x5 x7 x3 p d1 d5 d7 d3 dp
         + dvolpym x2 x3 x7 x6 p d2 d3 d7 d6 dp
         + dvolpym x4 x6 x7 x5 p d4 d6 d7 d5 dp)"


text \<open>The direction array that moves coordinate \<open>k\<close> of row \<open>n\<close> alone.\<close>

definition unitl :: "nat \<Rightarrow> nat \<Rightarrow> nat \<Rightarrow> vec3 list" where
  "unitl N n k = (replicate N zero3)[n := setc k 1 zero3]"


section \<open>Auxiliary notions for the thickness claims\<close>

text \<open>
  Successive calls of \<open>evalFunctions\<close> on one constraint, one per coordinate array
  that \<open>DVGeo.update\<close> returns over the optimization; the thickness of station \<open>i\<close>
  in a coordinate array, and the thickness and chord distances of station \<open>i\<close> of a
  thickness-to-chord constraint, all as float64 computes them.
\<close>

fun tc_evalRepeated ::
  "ThicknessConstraint \<Rightarrow> fvec3 list list \<Rightarrow> (string \<rightharpoonup> npfloat list)
     \<Rightarrow> error + ThicknessConstraint \<times> (string \<rightharpoonup> npfloat list)" where
  "tc_evalRepeated self [] funcs = Inr (self, funcs)"
| "tc_evalRepeated self (c # cs) funcs =
     (case tc_evalFunctions self c funcs of
        Inl e \<Rightarrow> Inl e
      | Inr (self, funcs) \<Rightarrow> tc_evalRepeated self cs funcs)"

fun ttc_evalRepeated ::
  "ThicknessToChordConstraint \<Rightarrow> fvec3 list list \<Rightarrow> (string \<rightharpoonup> npfloat list)
     \<Rightarrow> error + ThicknessToChordConstraint \<times> (string \<rightharpoonup> npfloat list)" where
  "ttc_evalRepeated self [] funcs = Inr (self, funcs)"
| "ttc_evalRepeated self (c # cs) funcs =
     (case ttc_evalFunctions self c funcs of
        Inl e \<Rightarrow> Inl e
      | Inr (self, funcs) \<Rightarrow> ttc_evalRepeated self cs funcs)"

definition thicknessAt :: "fvec3 list \<Rightarrow> nat \<Rightarrow> npfloat" where
  "thicknessAt c i = linalg_norm (fv_sub (c ! (2 * i)) (c ! (2 * i + 1)))"

definition tAt :: "fvec3 list \<Rightarrow> nat \<Rightarrow> npfloat" where
  "tAt c i = eDist (c ! (4 * i)) (c ! (4 * i + 1))"

definition cAt :: "fvec3 list \<Rightarrow> nat \<Rightarrow> npfloat" where
  "cAt c i = eDist (c ! (4 * i + 2)) (c ! (4 * i + 3))"

text \<open>A float that is a number other than zero, and the powers of two.\<close>

fun finite_nonzero :: "npfloat \<Rightarrow> bool" where
  "finite_nonzero (Fin x) = (x \<noteq> 0)"
| "finite_nonzero _ = False"

definition p2 :: "int \<Rightarrow> real" where
  "p2 k = 2 powr of_int k"

text \<open>
  Concrete stations. Two thickness pairs of lengths 1 and 2; a pair of two different
  points whose distance \<open>p2 (-600)\<close> has a square below the smallest float; a
  thickness-to-chord station with thickness 1 and chord distance 1.
\<close>

definition fpoint :: "real \<Rightarrow> real \<Rightarrow> real \<Rightarrow> fvec3" where
  "fpoint x y z = FVec3 (Fin x) (Fin y) (Fin z)"

definition twoStations :: "fvec3 list" where
  "twoStations = [fpoint 0 0 1, fpoint 0 0 0, fpoint 1 0 2, fpoint 1 0 0]"

definition tinyPair :: "fvec3 list" where
  "tinyPair = [fpoint 0 0 (p2 (- 600)), fpoint 0 0 0]"

definition emptyDVGeo :: DVGeometry where
  "emptyDVGeo = \<lparr>pointSets = [], DV_listLocal = []\<rparr>"

definition oneStation :: "fvec3 list" where
  "oneStation = [fpoint 0 0 1, fpoint 0 0 0, fpoint 0 0 (1 / 2), fpoint 1 0 (1 / 2)]"

section \<open>Auxiliary notions for the registry claims\<close>






definition pairExt :: "fvec3 \<Rightarrow> fvec3 \<Rightarrow> externals" where
  "pairExt up down = \<lparr>projectNode = (\<lambda>pt dir s. (up, down, False)),
                      grid2d = (\<lambda>le te ns nc. []),
                      polyline = (\<lambda>pts n. take n pts)\<rparr>"

text \<open>
  The rows that \<open>addThicknessToChordConstraints1D\<close> builds from an up and a down point
  and the caller's direction: the normalized direction, the third and the fourth point.
\<close>

definition unitDir :: "pyvec \<Rightarrow> fvec3" where
  "unitDir chordDir = fv_div (numbers chordDir) (linalg_norm (numbers chordDir))"

definition midPoint :: "fvec3 \<Rightarrow> fvec3 \<Rightarrow> fvec3" where
  "midPoint up down = fv_scale half (fv_add up down)"

definition chordPoint :: "fvec3 \<Rightarrow> fvec3 \<Rightarrow> fvec3 \<Rightarrow> fvec3" where
  "chordPoint up down u =
     fv_add (midPoint up down) (fv_scale (fmul tenth (linalg_norm (fv_sub up down))) u)"

section \<open>Auxiliary notions for the leading and trailing edge claim\<close>

text \<open>
  The last position in a coefficient list whose first entry is a given index; the
  position pairs of the index pairs that a group contains; the Jacobian row of a
  position pair; and the rows of all groups that contain some index pair.
\<close>

definition lastPos :: "(int \<times> int) list \<Rightarrow> int \<Rightarrow> nat option" where
  "lastPos temp a =
     (case filter (\<lambda>k. fst (temp ! k) = a) [0..<length temp] of
        [] \<Rightarrow> None
      | k # ks \<Rightarrow> Some (last (k # ks)))"

definition groupCons :: "(int \<times> int) list \<Rightarrow> int list \<Rightarrow> int list \<Rightarrow> (nat \<times> nat) list" where
  "groupCons temp A B =
     List.map_filter
       (\<lambda>j. case (lastPos temp (A ! j), lastPos temp (B ! j)) of
               (Some up, Some down) \<Rightarrow> Some (up, down)
             | _ \<Rightarrow> None)
       [0..<length A]"

definition unitRow :: "nat \<Rightarrow> nat \<times> nat \<Rightarrow> real list" where
  "unitRow ndv c = (replicate ndv 0)[fst c := 1, snd c := 1]"

definition groupRows ::
  "int list \<Rightarrow> int list \<Rightarrow> (string \<times> geoDVLocal) list \<Rightarrow> (string \<times> real list list) list" where
  "groupRows A B groups =
     map (\<lambda>kg. (fst kg, map (unitRow (nVal (snd kg))) (groupCons (coefList (snd kg)) A B)))
       (filter (\<lambda>kg. groupCons (coefList (snd kg)) A B \<noteq> []) groups)"

text \<open>The fields that the loop over the groups \<open>gs\<close> leaves in a constraint.\<close>

definition afterGroups :: "(string \<times> geoDVLocal) list \<Rightarrow> LeTeConstraint \<Rightarrow> LeTeConstraint" where
  "afterGroups gs self =
     self\<lparr>ncon := ncon self
                + sum_list (map (\<lambda>kg. length (groupCons (coefList (snd kg)) (indSetA self) (indSetB self))) gs),
          wrt := wrt self @ map fst (groupRows (indSetA self) (indSetB self) gs),
          jac := jac self @ groupRows (indSetA self) (indSetB self) gs,
          conIndices := conIndices self
                @ concat (map (\<lambda>kg. groupCons (coefList (snd kg)) (indSetA self) (indSetB self)) gs)\<rparr>"

definition fourCoefficients :: DVGeometry where
  "fourCoefficients =
     \<lparr>pointSets = [],
      DV_listLocal = [(''local'', \<lparr>coefList = [(0, 0), (1, 0), (2, 0), (3, 0)], nVal = 4\<rparr>)]\<rparr>"


section \<open>The adjoint of the hexahedral volume\<close>

subsection \<open>Gradient arrays paired with directions\<close>

lemma dotl_update:
  assumes "i < length G"
  shows "dotl (G[i := v]) D = dotl G D + dot v (D ! i) - dot (G ! i) (D ! i)"
proof -
  have "dotl (G[i := v]) D = (\<Sum>j<length G. dot (G ! j) (D ! j) + (if j = i then dot v (D ! i) - dot (G ! i) (D ! i) else 0))"
    unfolding dotl_def by (auto intro!: sum.cong)
  also have "\<dots> = dotl G D + (dot v (D ! i) - dot (G ! i) (D ! i))"
    using assms unfolding dotl_def by (simp add: sum.distrib)
  finally show ?thesis by simp
qed

lemma length_upd0 [simp]: "length (upd0 xb i f) = length xb"
  by (simp add: upd0_def)
lemma length_upd1 [simp]: "length (upd1 xb i f) = length xb"
  by (simp add: upd1_def)
lemma length_upd2 [simp]: "length (upd2 xb i f) = length xb"
  by (simp add: upd2_def)
lemma length_add_at [simp]: "length (add_at xb i v) = length xb"
  by (simp add: add_at_def)

lemma dotl_upd0: "i < length xb \<Longrightarrow> dotl (upd0 xb i (\<lambda>v. v + t)) D = dotl xb D + t * c0 (D ! i)"
  by (simp add: upd0_def dotl_update dot_def algebra_simps)
lemma dotl_upd1: "i < length xb \<Longrightarrow> dotl (upd1 xb i (\<lambda>v. v + t)) D = dotl xb D + t * c1 (D ! i)"
  by (simp add: upd1_def dotl_update dot_def algebra_simps)
lemma dotl_upd2: "i < length xb \<Longrightarrow> dotl (upd2 xb i (\<lambda>v. v + t)) D = dotl xb D + t * c2 (D ! i)"
  by (simp add: upd2_def dotl_update dot_def algebra_simps)
lemma dotl_add_at: "i < length xb \<Longrightarrow> dotl (add_at xb i v) D = dotl xb D + dot v (D ! i)"
  by (simp add: add_at_def vadd_def dotl_update dot_def algebra_simps)

lemma plus3: "(\<lambda>v::real. v + r + s + t) = (\<lambda>v. v + (r + s + t))"
  by (simp add: fun_eq_iff)
lemma minus3: "(\<lambda>v::real. v + r - s - t) = (\<lambda>v. v + (r - s - t))"
  by (simp add: fun_eq_iff)

lemma length_volpym_b [simp]: "length (fst (volpym_b a b c d p ia ib ic ie st)) = length (fst st)"
  by (simp add: volpym_b_def Let_def)

lemma volpym_triple: "volpym a b c d p = triple (qmid a b c d p) (vsub a c) (vsub b d)"
  by (simp add: volpym_def triple_def qmid_def vsub_def Let_def)

lemma volpym_b_dotl:
  assumes "ia < length xb" "ib < length xb" "ic < length xb" "ie < length xb"
  shows "dotl (fst (volpym_b a b c d p ia ib ic ie (xb, pb))) D + dot (snd (volpym_b a b c d p ia ib ic ie (xb, pb))) dp
       = dotl xb D + dot pb dp
         + triple (qmid (D ! ia) (D ! ib) (D ! ic) (D ! ie) dp) (vsub a c) (vsub b d)
         + triple (qmid a b c d p) (vsub (D ! ia) (D ! ic)) (vsub b d)
         + triple (qmid a b c d p) (vsub a c) (vsub (D ! ib) (D ! ie))"
proof -
  define u where "u = vsub a c"
  define w where "w = vsub b d"
  define q where "q = qmid a b c d p"
  have u: "c0 a - c0 c = c0 u" "c1 a - c1 c = c1 u" "c2 a - c2 c = c2 u"
    by (simp_all add: u_def vsub_def)
  have w: "c0 b - c0 d = c0 w" "c1 b - c1 d = c1 w" "c2 b - c2 d = c2 w"
    by (simp_all add: w_def vsub_def)
  have q: "c0 p - 1 / 4 * (c0 a + c0 b + c0 c + c0 d) = c0 q"
          "c1 p - 1 / 4 * (c1 a + c1 b + c1 c + c1 d) = c1 q"
          "c2 p - 1 / 4 * (c2 a + c2 b + c2 c + c2 d) = c2 q"
    by (simp_all add: q_def qmid_def)
  show ?thesis
    unfolding u_def [symmetric] w_def [symmetric] q_def [symmetric]
    using assms
    apply (simp only: volpym_b_def Let_def fst_conv snd_conv u w q)
    apply (simp only: plus3 minus3 dotl_upd0 dotl_upd1 dotl_upd2 length_upd0 length_upd1 length_upd2)
    apply (simp add: dot_def triple_def qmid_def vsub_def algebra_simps)
    done
qed


lemma triple_pert_deriv:
  "((\<lambda>t. triple (pert q dq t) (pert u du t) (pert w dw t))
      has_real_derivative (triple dq u w + triple q du w + triple q u dw)) (at 0)"
  unfolding triple_def pert_def vadd_def smul_def vec3.sel
  by (auto intro!: derivative_eq_intros simp: algebra_simps)

lemma qmid_pert:
  "qmid (pert a da t) (pert b db t) (pert c dc t) (pert d dd t) (pert p dp t)
     = pert (qmid a b c d p) (qmid da db dc dd dp) t"
  by (simp add: qmid_def pert_def vadd_def smul_def algebra_simps add_divide_distrib)

lemma vsub_pert: "vsub (pert a da t) (pert c dc t) = pert (vsub a c) (vsub da dc) t"
  by (simp add: vsub_def pert_def vadd_def smul_def algebra_simps)

lemma average8_pert:
  "average8 (pert x0 d0 t) (pert x1 d1 t) (pert x2 d2 t) (pert x3 d3 t)
            (pert x4 d4 t) (pert x5 d5 t) (pert x6 d6 t) (pert x7 d7 t)
     = pert (average8 x0 x1 x2 x3 x4 x5 x6 x7) (average8 d0 d1 d2 d3 d4 d5 d6 d7) t"
  by (simp add: average8_def pert_def vadd_def vdiv_def smul_def algebra_simps add_divide_distrib)

lemma volpym_deriv:
  "((\<lambda>t. volpym (pert a da t) (pert b db t) (pert c dc t) (pert d dd t) (pert p dp t))
      has_real_derivative dvolpym a b c d p da db dc dd dp) (at 0)"
  unfolding volpym_triple qmid_pert vsub_pert dvolpym_def
  by (rule triple_pert_deriv)

lemma volpym_b_pot:
  assumes "ia < length (fst st)" "ib < length (fst st)" "ic < length (fst st)" "ie < length (fst st)"
  shows "dotl (fst (volpym_b a b c d p ia ib ic ie st)) D + dot (snd (volpym_b a b c d p ia ib ic ie st)) dp
       = dotl (fst st) D + dot (snd st) dp
         + dvolpym a b c d p (D ! ia) (D ! ib) (D ! ic) (D ! ie) dp"
  using assms volpym_b_dotl [of ia "fst st" ib ic ie a b c d p "snd st" D dp]
  by (simp add: dvolpym_def)

lemma dot_average8:
  "dot (vdiv v 8) d0 + dot (vdiv v 8) d1 + dot (vdiv v 8) d2 + dot (vdiv v 8) d3
   + dot (vdiv v 8) d4 + dot (vdiv v 8) d5 + dot (vdiv v 8) d6 + dot (vdiv v 8) d7
   = dot v (average8 d0 d1 d2 d3 d4 d5 d6 d7)"
  by (simp add: dot_def vdiv_def average8_def vadd_def algebra_simps add_divide_distrib)

lemma evalVolumeHex_b_dotl:
  assumes "i0 < length xb" "i1 < length xb" "i2 < length xb" "i3 < length xb"
          "i4 < length xb" "i5 < length xb" "i6 < length xb" "i7 < length xb"
  shows "dotl (evalVolumeHex_b x0 x1 x2 x3 x4 x5 x6 x7 i0 i1 i2 i3 i4 i5 i6 i7 xb) D
       = dotl xb D +
         (let p = average8 x0 x1 x2 x3 x4 x5 x6 x7;
              dp = average8 (D ! i0) (D ! i1) (D ! i2) (D ! i3) (D ! i4) (D ! i5) (D ! i6) (D ! i7)
          in dvolpym x0 x1 x3 x2 p (D ! i0) (D ! i1) (D ! i3) (D ! i2) dp
           + dvolpym x0 x2 x4 x6 p (D ! i0) (D ! i2) (D ! i4) (D ! i6) dp
           + dvolpym x0 x4 x5 x1 p (D ! i0) (D ! i4) (D ! i5) (D ! i1) dp
           + dvolpym x1 x5 x7 x3 p (D ! i1) (D ! i5) (D ! i7) (D ! i3) dp
           + dvolpym x2 x3 x7 x6 p (D ! i2) (D ! i3) (D ! i7) (D ! i6) dp
           + dvolpym x4 x6 x7 x5 p (D ! i4) (D ! i6) (D ! i7) (D ! i5) dp)"
proof -
  define p where "p = average8 x0 x1 x2 x3 x4 x5 x6 x7"
  define dp where "dp = average8 (D ! i0) (D ! i1) (D ! i2) (D ! i3) (D ! i4) (D ! i5) (D ! i6) (D ! i7)"
  define s0 where "s0 = (xb, zero3)"
  define s1 where "s1 = volpym_b x0 x1 x3 x2 p i0 i1 i3 i2 s0"
  define s2 where "s2 = volpym_b x0 x2 x4 x6 p i0 i2 i4 i6 s1"
  define s3 where "s3 = volpym_b x0 x4 x5 x1 p i0 i4 i5 i1 s2"
  define s4 where "s4 = volpym_b x1 x5 x7 x3 p i1 i5 i7 i3 s3"
  define s5 where "s5 = volpym_b x2 x3 x7 x6 p i2 i3 i7 i6 s4"
  define s6 where "s6 = volpym_b x4 x6 x7 x5 p i4 i6 i7 i5 s5"
  have len: "length (fst s0) = length xb" "length (fst s1) = length xb" "length (fst s2) = length xb"
    "length (fst s3) = length xb" "length (fst s4) = length xb" "length (fst s5) = length xb"
    "length (fst s6) = length xb"
    by (simp_all add: s0_def s1_def s2_def s3_def s4_def s5_def s6_def)
  have e0: "dotl (fst s0) D + dot (snd s0) dp = dotl xb D"
    by (simp add: s0_def zero3_def dot_def)
  have e1: "dotl (fst s1) D + dot (snd s1) dp = dotl (fst s0) D + dot (snd s0) dp
              + dvolpym x0 x1 x3 x2 p (D ! i0) (D ! i1) (D ! i3) (D ! i2) dp"
    unfolding s1_def by (rule volpym_b_pot) (simp_all add: len assms)
  have e2: "dotl (fst s2) D + dot (snd s2) dp = dotl (fst s1) D + dot (snd s1) dp
              + dvolpym x0 x2 x4 x6 p (D ! i0) (D ! i2) (D ! i4) (D ! i6) dp"
    unfolding s2_def by (rule volpym_b_pot) (simp_all add: len assms)
  have e3: "dotl (fst s3) D + dot (snd s3) dp = dotl (fst s2) D + dot (snd s2) dp
              + dvolpym x0 x4 x5 x1 p (D ! i0) (D ! i4) (D ! i5) (D ! i1) dp"
    unfolding s3_def by (rule volpym_b_pot) (simp_all add: len assms)
  have e4: "dotl (fst s4) D + dot (snd s4) dp = dotl (fst s3) D + dot (snd s3) dp
              + dvolpym x1 x5 x7 x3 p (D ! i1) (D ! i5) (D ! i7) (D ! i3) dp"
    unfolding s4_def by (rule volpym_b_pot) (simp_all add: len assms)
  have e5: "dotl (fst s5) D + dot (snd s5) dp = dotl (fst s4) D + dot (snd s4) dp
              + dvolpym x2 x3 x7 x6 p (D ! i2) (D ! i3) (D ! i7) (D ! i6) dp"
    unfolding s5_def by (rule volpym_b_pot) (simp_all add: len assms)
  have e6: "dotl (fst s6) D + dot (snd s6) dp = dotl (fst s5) D + dot (snd s5) dp
              + dvolpym x4 x6 x7 x5 p (D ! i4) (D ! i6) (D ! i7) (D ! i5) dp"
    unfolding s6_def by (rule volpym_b_pot) (simp_all add: len assms)
  have fin: "evalVolumeHex_b x0 x1 x2 x3 x4 x5 x6 x7 i0 i1 i2 i3 i4 i5 i6 i7 xb
      = add_at (add_at (add_at (add_at (add_at (add_at (add_at (add_at (fst s6) i0 (vdiv (snd s6) 8))
          i1 (vdiv (snd s6) 8)) i2 (vdiv (snd s6) 8)) i3 (vdiv (snd s6) 8)) i4 (vdiv (snd s6) 8))
          i5 (vdiv (snd s6) 8)) i6 (vdiv (snd s6) 8)) i7 (vdiv (snd s6) 8)"
    by (simp only: evalVolumeHex_b_def Let_def s6_def s5_def s4_def s3_def s2_def s1_def s0_def p_def)
  have "dotl (evalVolumeHex_b x0 x1 x2 x3 x4 x5 x6 x7 i0 i1 i2 i3 i4 i5 i6 i7 xb) D
      = dotl (fst s6) D + dot (snd s6) dp"
    unfolding fin dp_def
    by (simp add: dotl_add_at len assms dot_average8 [symmetric])
  with e0 e1 e2 e3 e4 e5 e6 show ?thesis
    by (simp add: Let_def p_def dp_def)
qed

lemma evalVolumeHex_deriv:
  "((\<lambda>t. evalVolumeHex (pert x0 d0 t) (pert x1 d1 t) (pert x2 d2 t) (pert x3 d3 t)
                        (pert x4 d4 t) (pert x5 d5 t) (pert x6 d6 t) (pert x7 d7 t))
     has_real_derivative
       (let p = average8 x0 x1 x2 x3 x4 x5 x6 x7;
            dp = average8 d0 d1 d2 d3 d4 d5 d6 d7
        in dvolpym x0 x1 x3 x2 p d0 d1 d3 d2 dp
         + dvolpym x0 x2 x4 x6 p d0 d2 d4 d6 dp
         + dvolpym x0 x4 x5 x1 p d0 d4 d5 d1 dp
         + dvolpym x1 x5 x7 x3 p d1 d5 d7 d3 dp
         + dvolpym x2 x3 x7 x6 p d2 d3 d7 d6 dp
         + dvolpym x4 x6 x7 x5 p d4 d6 d7 d5 dp) / 6) (at 0)"
proof -
  define p where "p = average8 x0 x1 x2 x3 x4 x5 x6 x7"
  define dp where "dp = average8 d0 d1 d2 d3 d4 d5 d6 d7"
  have "((\<lambda>t. (0 + volpym (pert x0 d0 t) (pert x1 d1 t) (pert x3 d3 t) (pert x2 d2 t) (pert p dp t)
                 + volpym (pert x0 d0 t) (pert x2 d2 t) (pert x4 d4 t) (pert x6 d6 t) (pert p dp t)
                 + volpym (pert x0 d0 t) (pert x4 d4 t) (pert x5 d5 t) (pert x1 d1 t) (pert p dp t)
                 + volpym (pert x1 d1 t) (pert x5 d5 t) (pert x7 d7 t) (pert x3 d3 t) (pert p dp t)
                 + volpym (pert x2 d2 t) (pert x3 d3 t) (pert x7 d7 t) (pert x6 d6 t) (pert p dp t)
                 + volpym (pert x4 d4 t) (pert x6 d6 t) (pert x7 d7 t) (pert x5 d5 t) (pert p dp t)) / 6)
     has_real_derivative
       (0 + dvolpym x0 x1 x3 x2 p d0 d1 d3 d2 dp
         + dvolpym x0 x2 x4 x6 p d0 d2 d4 d6 dp
         + dvolpym x0 x4 x5 x1 p d0 d4 d5 d1 dp
         + dvolpym x1 x5 x7 x3 p d1 d5 d7 d3 dp
         + dvolpym x2 x3 x7 x6 p d2 d3 d7 d6 dp
         + dvolpym x4 x6 x7 x5 p d4 d6 d7 d5 dp) / 6) (at 0)"
    by (intro DERIV_cdivide DERIV_add DERIV_const volpym_deriv)
  then show ?thesis
    by (simp add: evalVolumeHex_def Let_def average8_pert p_def dp_def)
qed


lemma length_pertl [simp]: "length (pertl x D t) = length x"
  by (simp add: pertl_def)

lemma nth_pertl [simp]: "k < length x \<Longrightarrow> pertl x D t ! k = pert (x ! k) (D ! k) t"
  by (simp add: pertl_def)

lemma xrow_bound:
  assumes "i < ns" "j < nc" "k < 2"
  shows "xrow nc i j k < ns * nc * 2"
proof -
  have "xrow nc i j k < (i * nc + nc) * 2"
    using assms by (simp add: xrow_def)
  also have "\<dots> = (Suc i * nc) * 2" by simp
  also have "\<dots> \<le> (ns * nc) * 2"
    using assms(1) by (intro mult_le_mono) simp_all
  finally show ?thesis .
qed

lemma cells_mem: "ij \<in> set (cells ns nc) \<Longrightarrow> fst ij + 1 < ns \<and> snd ij + 1 < nc"
  by (auto simp: cells_def)

lemma length_evalVolumeHex_b [simp]:
  "length (evalVolumeHex_b x0 x1 x2 x3 x4 x5 x6 x7 i0 i1 i2 i3 i4 i5 i6 i7 xb) = length xb"
  by (simp add: evalVolumeHex_b_def Let_def)

lemma length_hexAt_b [simp]: "length (hexAt_b nc x xb ij) = length xb"
  by (simp add: hexAt_b_def Let_def)

lemma hexAt_deriv:
  assumes "fst ij + 1 < ns" "snd ij + 1 < nc" "length x = ns * nc * 2" "length xb = length x"
  shows "((\<lambda>t. hexAt nc (pertl x D t) ij) has_real_derivative
            (dotl (hexAt_b nc x xb ij) D - dotl xb D) / 6) (at 0)"
proof -
  define r0 where "r0 = xrow nc (fst ij) (snd ij) 0"
  define r1 where "r1 = xrow nc (fst ij + 1) (snd ij) 0"
  define r2 where "r2 = xrow nc (fst ij) (snd ij + 1) 0"
  define r3 where "r3 = xrow nc (fst ij + 1) (snd ij + 1) 0"
  define r4 where "r4 = xrow nc (fst ij) (snd ij) 1"
  define r5 where "r5 = xrow nc (fst ij + 1) (snd ij) 1"
  define r6 where "r6 = xrow nc (fst ij) (snd ij + 1) 1"
  define r7 where "r7 = xrow nc (fst ij + 1) (snd ij + 1) 1"
  note r = r0_def r1_def r2_def r3_def r4_def r5_def r6_def r7_def
  have b: "r0 < length x" "r1 < length x" "r2 < length x" "r3 < length x"
          "r4 < length x" "r5 < length x" "r6 < length x" "r7 < length x"
    using assms by (simp_all add: r xrow_bound)
  have hb: "hexAt_b nc x xb ij = evalVolumeHex_b (x ! r0) (x ! r1) (x ! r2) (x ! r3)
              (x ! r4) (x ! r5) (x ! r6) (x ! r7) r0 r1 r2 r3 r4 r5 r6 r7 xb"
    by (simp only: hexAt_b_def Let_def r)
  have e: "dotl (hexAt_b nc x xb ij) D - dotl xb D
         = dhex (x ! r0) (x ! r1) (x ! r2) (x ! r3) (x ! r4) (x ! r5) (x ! r6) (x ! r7)
                (D ! r0) (D ! r1) (D ! r2) (D ! r3) (D ! r4) (D ! r5) (D ! r6) (D ! r7)"
    unfolding hb dhex_def
    using b assms(4) by (subst evalVolumeHex_b_dotl) simp_all
  have f: "hexAt nc (pertl x D t) ij
         = evalVolumeHex (pert (x ! r0) (D ! r0) t) (pert (x ! r1) (D ! r1) t)
             (pert (x ! r2) (D ! r2) t) (pert (x ! r3) (D ! r3) t)
             (pert (x ! r4) (D ! r4) t) (pert (x ! r5) (D ! r5) t)
             (pert (x ! r6) (D ! r6) t) (pert (x ! r7) (D ! r7) t)" for t
    unfolding hexAt_def Let_def r [symmetric]
    using b by (simp only: nth_pertl)
  show ?thesis
    unfolding e f dhex_def by (rule evalVolumeHex_deriv)
qed

lemma foldl_deriv:
  assumes "\<forall>ij\<in>set cs. fst ij + 1 < ns \<and> snd ij + 1 < nc"
      and "length x = ns * nc * 2" and "length xb = length x"
      and "(V has_real_derivative v) (at 0)"
  shows "((\<lambda>t. foldl (\<lambda>Volume ij. Volume + hexAt nc (pertl x D t) ij) (V t) cs)
            has_real_derivative (v + (dotl (foldl (hexAt_b nc x) xb cs) D - dotl xb D) / 6)) (at 0)"
  using assms
proof (induction cs arbitrary: V v xb)
  case Nil
  then show ?case by simp
next
  case (Cons c cs)
  have c: "fst c + 1 < ns" "snd c + 1 < nc"
    using Cons.prems(1) by simp_all
  have step: "((\<lambda>t. V t + hexAt nc (pertl x D t) c) has_real_derivative
                 (v + (dotl (hexAt_b nc x xb c) D - dotl xb D) / 6)) (at 0)"
    by (intro DERIV_add Cons.prems(4) hexAt_deriv [OF c Cons.prems(2) Cons.prems(3)])
  have "((\<lambda>t. foldl (\<lambda>Volume ij. Volume + hexAt nc (pertl x D t) ij)
                   (V t + hexAt nc (pertl x D t) c) cs)
            has_real_derivative
              ((v + (dotl (hexAt_b nc x xb c) D - dotl xb D) / 6)
               + (dotl (foldl (hexAt_b nc x) (hexAt_b nc x xb c) cs) D
                   - dotl (hexAt_b nc x xb c) D) / 6)) (at 0)"
    using Cons.prems by (intro Cons.IH step) simp_all
  then show ?case
    by (simp add: diff_divide_distrib)
qed

lemma rawVolume_deriv:
  assumes "length x = ns * nc * 2"
  shows "((\<lambda>t. rawVolume ns nc (pertl x D t)) has_real_derivative
            dotl (foldl (hexAt_b nc x) (replicate (length x) zero3) (cells ns nc)) D / 6) (at 0)"
proof -
  have z: "dotl (replicate (length x) zero3) D = 0"
    by (simp add: dotl_def dot_def zero3_def)
  have "((\<lambda>t. foldl (\<lambda>Volume ij. Volume + hexAt nc (pertl x D t) ij) 0 (cells ns nc))
            has_real_derivative
              (0 + (dotl (foldl (hexAt_b nc x) (replicate (length x) zero3) (cells ns nc)) D
                     - dotl (replicate (length x) zero3) D) / 6)) (at 0)"
    using assms by (intro foldl_deriv) (auto dest: cells_mem)
  then show ?thesis
    by (simp add: rawVolume_def z)
qed


lemma parallelepiped:
  "evalVolumeHex o' (vadd o' u) (vadd o' v) (vadd (vadd o' u) v)
      (vadd o' w) (vadd (vadd o' u) w) (vadd (vadd o' v) w) (vadd (vadd (vadd o' u) v) w)
   = 5 / 6 * triple u v w"
  by (simp add: evalVolumeHex_def average8_def volpym_def vadd_def vdiv_def Let_def triple_def field_simps)

lemma moveCoord_pertl:
  assumes "n < length x" "k < 3"
  shows "moveCoord x n k t = pertl x (unitl (length x) n k) (t - getc k (x ! n))"
proof (rule nth_equalityI)
  show "length (moveCoord x n k t) = length (pertl x (unitl (length x) n k) (t - getc k (x ! n)))"
    by (simp add: moveCoord_def)
next
  fix i assume "i < length (moveCoord x n k t)"
  then have i: "i < length x" by (simp add: moveCoord_def)
  show "moveCoord x n k t ! i = pertl x (unitl (length x) n k) (t - getc k (x ! n)) ! i"
  proof (cases "i = n")
    case True
    then show ?thesis
      using i assms
      by (cases "x ! n") (auto simp: moveCoord_def unitl_def pert_def vadd_def smul_def setc_def getc_def zero3_def)
  next
    case False
    then show ?thesis
      using i by (cases "x ! i") (simp add: moveCoord_def unitl_def pert_def vadd_def smul_def zero3_def)
  qed
qed

lemma dotl_unitl:
  assumes "n < length G" "k < 3"
  shows "dotl G (unitl (length G) n k) = getc k (G ! n)"
proof -
  have "dotl G (unitl (length G) n k) = (\<Sum>i<length G. if i = n then getc k (G ! n) else 0)"
    unfolding dotl_def
    by (rule sum.cong) (auto simp: unitl_def dot_def setc_def getc_def zero3_def)
  also have "\<dots> = getc k (G ! n)"
    using assms by simp
  finally show ?thesis .
qed

lemma length_foldl_hexAt_b [simp]: "length (foldl (hexAt_b nc x) xb cs) = length xb"
  by (induction cs arbitrary: xb) simp_all

lemma rawVolume_partial:
  assumes "length x = ns * nc * 2" "n < length x" "k < 3"
  shows "((\<lambda>t. rawVolume ns nc (moveCoord x n k t)) has_real_derivative
            getc k (foldl (hexAt_b nc x) (replicate (length x) zero3) (cells ns nc) ! n) / 6)
           (at (getc k (x ! n)))"
proof -
  let ?G = "foldl (hexAt_b nc x) (replicate (length x) zero3) (cells ns nc)"
  let ?D = "unitl (length x) n k"
  have len: "length ?G = length x"
    by simp
  have "((\<lambda>t. rawVolume ns nc (pertl x ?D t)) has_real_derivative dotl ?G ?D / 6) (at 0)"
    by (rule rawVolume_deriv [OF assms(1)])
  then have "((\<lambda>t. rawVolume ns nc (pertl x ?D t)) has_real_derivative dotl ?G ?D / 6)
               (at (getc k (x ! n) + (- getc k (x ! n))))"
    by simp
  then have "((\<lambda>t. rawVolume ns nc (pertl x ?D (t + (- getc k (x ! n))))) has_real_derivative
               dotl ?G ?D / 6) (at (getc k (x ! n)))"
    by (simp only: DERIV_shift)
  moreover have "dotl ?G ?D = getc k (?G ! n)"
    using dotl_unitl [of n ?G k] assms len by simp
  ultimately show ?thesis
    using assms by (simp add: moveCoord_pertl)
qed


lemma abs_deriv_pos:
  fixes f :: "real \<Rightarrow> real"
  assumes "(f has_real_derivative d) (at x)" "0 < f x"
  shows "((\<lambda>t. \<bar>f t\<bar>) has_real_derivative d) (at x)"
proof -
  have "isCont f x" using assms(1) by (rule DERIV_isCont)
  then have "\<forall>\<^sub>F t in at x. 0 < f t"
    unfolding isCont_def using assms(2) by (rule order_tendstoD)
  then have ev: "\<forall>\<^sub>F t in at x. \<bar>f t\<bar> = f t"
    by (rule eventually_mono) simp
  show ?thesis
    using has_field_derivative_cong_eventually [OF ev, of d] assms by simp
qed

lemma abs_deriv_neg:
  fixes f :: "real \<Rightarrow> real"
  assumes "(f has_real_derivative d) (at x)" "f x < 0"
  shows "((\<lambda>t. \<bar>f t\<bar>) has_real_derivative - d) (at x)"
proof -
  have "((\<lambda>t. - f t) has_real_derivative - d) (at x)"
    using assms(1) by (rule DERIV_minus)
  then have "((\<lambda>t. \<bar>- f t\<bar>) has_real_derivative - d) (at x)"
    using assms(2) by (intro abs_deriv_pos) simp_all
  then show ?thesis by simp
qed

lemma returnedVolume_abs:
  "length (vc_coords self) = nSpan self * nChord self * 2 \<Longrightarrow>
   returnedVolume self = \<bar>rawVolume (nSpan self) (nChord self) (vc_coords self)\<bar>"
  by (simp add: returnedVolume_def evalVolume_def Let_def)

lemma returnedVolume_nonneg: "0 \<le> returnedVolume self"
  by (simp add: returnedVolume_def evalVolume_def Let_def)

lemma length_moveCoord [simp]: "length (moveCoord x n k t) = length x"
  by (simp add: moveCoord_def)

lemma getc_vdiv: "getc k (vdiv v r) = getc k v / r"
  by (simp add: getc_def vdiv_def)

lemma getc_vneg: "getc k (vneg v) = - getc k v"
  by (simp add: getc_def vneg_def)


subsection \<open>Evaluation on the concrete cells\<close>

lemma raw_unitCube: "rawVolume 2 2 unitCube = 5 / 6"
  by code_simp

lemma sens_unitCube: "evalVolumeSens (oneCell unitCube) =
   Inr [Vec3 (- (5 / 24)) (- (1 / 4)) (- (1 / 6)), Vec3 (- (5 / 24)) (- (1 / 12)) (1 / 6),
        Vec3 (- (5 / 24)) (1 / 4) (- (1 / 6)), Vec3 (- (5 / 24)) (1 / 12) (1 / 6),
        Vec3 (5 / 24) (- (1 / 4)) (- (1 / 4)), Vec3 (5 / 24) (- (1 / 4)) (1 / 4),
        Vec3 (5 / 24) (1 / 4) (- (1 / 4)), Vec3 (5 / 24) (1 / 4) (1 / 4)]"
  by code_simp

lemma raw_flat: "rawVolume 2 2 flatCell = 0"
  by code_simp

lemma sens_flat: "evalVolumeSens (oneCell flatCell) =
  Inr [Vec3 0 0 (- (1 / 6)), Vec3 0 0 (1 / 6), Vec3 0 0 (- (1 / 6)),
      Vec3 0 0 (1 / 6), Vec3 0 0 (- (1 / 4)), Vec3 0 0 (1 / 4),
      Vec3 0 0 (- (1 / 4)), Vec3 0 0 (1 / 4)]"
  by code_simp


section \<open>The volume claims\<close>

text \<open>
  Claim C1, as amended. For every configuration of grid corner points that fills the
  \<open>nSpan \<times> nChord \<times> 2\<close> grid, \<open>evalVolumeSens\<close> returns an array \<open>xb\<close> of the same
  length such that, for every scalar coordinate \<open>k\<close> of every point \<open>n\<close>, the signed sum
  accumulated by \<open>evalVolume\<close> has, with respect to that coordinate, the exact derivative
  \<open>xb[n][k]\<close>, negated exactly when \<open>flipVolume\<close> is set: the per-cell adjoints of the
  pyramid sum are accumulated, divided by 6 and negated under the flag. Whenever the
  signed sum is not zero and the flag agrees with its sign (set exactly when the sum is
  negative, as \<open>evalVolume\<close> leaves a clear flag), \<open>xb[n][k]\<close> is the exact derivative of
  the volume that \<open>evalVolume\<close> returns.
\<close>

theorem evalVolumeSens_derivative:
  assumes shape: "length (vc_coords self) = nSpan self * nChord self * 2"
    and n: "n < length (vc_coords self)" and k: "k < 3"
  shows "\<exists>xb. evalVolumeSens self = Inr xb \<and> length xb = length (vc_coords self) \<and>
           ((\<lambda>t. rawVolume (nSpan self) (nChord self) (moveCoord (vc_coords self) n k t))
              has_real_derivative (if flipVolume self then - getc k (xb ! n) else getc k (xb ! n)))
             (at (getc k (vc_coords self ! n))) \<and>
           (rawVolume (nSpan self) (nChord self) (vc_coords self) \<noteq> 0 \<and>
            (flipVolume self \<longleftrightarrow> rawVolume (nSpan self) (nChord self) (vc_coords self) < 0)
            \<longrightarrow> ((\<lambda>t. returnedVolume (self\<lparr>vc_coords := moveCoord (vc_coords self) n k t\<rparr>))
                   has_real_derivative getc k (xb ! n)) (at (getc k (vc_coords self ! n))))"
proof -
  define x where "x = vc_coords self"
  define G where "G = foldl (hexAt_b (nChord self) x) (replicate (length x) zero3)
                        (cells (nSpan self) (nChord self))"
  define xb where "xb = (if flipVolume self then map vneg (map (\<lambda>v. vdiv v 6) G)
                         else map (\<lambda>v. vdiv v 6) G)"
  define raw where "raw = (\<lambda>t. rawVolume (nSpan self) (nChord self) (moveCoord x n k t))"
  have lenG: "length G = length x" by (simp add: G_def)
  have sens: "evalVolumeSens self = Inr xb"
    using shape by (simp add: evalVolumeSens_def Let_def xb_def G_def x_def)
  have lenxb: "length xb = length x" by (simp add: xb_def lenG)
  have entry: "getc k (xb ! n) = (if flipVolume self then - (getc k (G ! n) / 6) else getc k (G ! n) / 6)"
    using n lenG by (simp add: xb_def x_def getc_vdiv getc_vneg)
  have d: "(raw has_real_derivative getc k (G ! n) / 6) (at (getc k (x ! n)))"
    unfolding raw_def G_def using shape n k by (intro rawVolume_partial) (simp_all add: x_def)
  have d1: "(raw has_real_derivative (if flipVolume self then - getc k (xb ! n) else getc k (xb ! n)))
              (at (getc k (x ! n)))"
    using d by (simp add: entry)
  have same: "moveCoord x n k (getc k (x ! n)) = x"
    using n k by (cases "x ! n") (auto simp: moveCoord_def setc_def getc_def x_def list_update_same_conv)
  have ret: "returnedVolume (self\<lparr>vc_coords := moveCoord x n k t\<rparr>) = \<bar>raw t\<bar>" for t
    using shape by (simp add: returnedVolume_abs raw_def x_def)
  have d2: "((\<lambda>t. returnedVolume (self\<lparr>vc_coords := moveCoord x n k t\<rparr>))
              has_real_derivative getc k (xb ! n)) (at (getc k (x ! n)))"
    if nz: "rawVolume (nSpan self) (nChord self) x \<noteq> 0"
      and fl: "flipVolume self \<longleftrightarrow> rawVolume (nSpan self) (nChord self) x < 0"
  proof (cases "rawVolume (nSpan self) (nChord self) x < 0")
    case True
    then have "raw (getc k (x ! n)) < 0" by (simp add: raw_def same)
    from abs_deriv_neg [OF d this] show ?thesis
      using True fl by (simp add: ret entry)
  next
    case False
    then have "0 < raw (getc k (x ! n))" using nz by (simp add: raw_def same)
    from abs_deriv_pos [OF d this] show ?thesis
      using False fl by (simp add: ret entry)
  qed
  show ?thesis
    using sens lenxb d1 d2 unfolding raw_def x_def by blast
qed

theorem evalVolumeSens_derivative_witness:
  "((\<lambda>t. returnedVolume (oneCell unitCube\<lparr>vc_coords := moveCoord unitCube 5 2 t\<rparr>))
      has_real_derivative 1 / 4) (at 1)"
proof -
  have c: "vc_coords (oneCell unitCube) = unitCube" "nSpan (oneCell unitCube) = 2"
    "nChord (oneCell unitCube) = 2" "flipVolume (oneCell unitCube) = False"
    by (simp_all add: oneCell_def)
  have l: "length unitCube = 8" by (simp add: unitCube_def)
  have e: "unitCube ! 5 = Vec3 1 0 1" by (simp add: unitCube_def)
  from evalVolumeSens_derivative [of "oneCell unitCube" 5 2]
  show ?thesis
    by (simp add: c l e raw_unitCube sens_unitCube getc_def)
qed


text \<open>
  The claim as stated fails on a cell of no thickness: the signed sum is 0, the volume
  that \<open>evalVolume\<close> returns is the absolute value of the sum and has no derivative with
  respect to the height of the down point of the first node, yet \<open>evalVolumeSens\<close>
  returns \<open>1/6\<close> for that coordinate.
\<close>

theorem evalVolumeSens_flat_counterexample:
  "(\<exists>xb. evalVolumeSens (oneCell flatCell) = Inr xb \<and> getc 2 (xb ! 1) = 1 / 6) \<and>
   \<not> ((\<lambda>t. returnedVolume (oneCell flatCell\<lparr>vc_coords := moveCoord flatCell 1 2 t\<rparr>))
        has_real_derivative 1 / 6) (at (getc 2 (flatCell ! 1)))"
proof
  show "\<exists>xb. evalVolumeSens (oneCell flatCell) = Inr xb \<and> getc 2 (xb ! 1) = 1 / 6"
    by (simp add: sens_flat getc_def)
next
  let ?f = "\<lambda>t. returnedVolume (oneCell flatCell\<lparr>vc_coords := moveCoord flatCell 1 2 t\<rparr>)"
  have at0: "getc 2 (flatCell ! 1) = 0"
    by (simp add: flatCell_def getc_def)
  have same: "moveCoord flatCell 1 2 0 = flatCell"
    by (simp add: moveCoord_def flatCell_def setc_def)
  have len: "length flatCell = 8"
    by (simp add: flatCell_def)
  have "?f 0 = \<bar>rawVolume 2 2 flatCell\<bar>"
    unfolding same by (subst returnedVolume_abs) (simp_all add: oneCell_def len)
  then have f0: "?f 0 = 0"
    by (simp add: raw_flat)
  show "\<not> (?f has_real_derivative 1 / 6) (at (getc 2 (flatCell ! 1)))"
  proof
    assume "(?f has_real_derivative 1 / 6) (at (getc 2 (flatCell ! 1)))"
    then have d: "(?f has_real_derivative 1 / 6) (at 0)"
      by (simp only: at0)
    have mn: "\<forall>y. \<bar>0 - y\<bar> < 1 \<longrightarrow> ?f 0 \<le> ?f y"
      unfolding f0 by (intro allI impI returnedVolume_nonneg)
    have "(1 / 6 :: real) = 0"
      by (rule DERIV_local_min [OF d _ mn]) simp
    then show False by simp
  qed
qed

text \<open>
  Claim C2. For the unit cube in the corner order of the code, as one cell of a
  \<open>2 \<times> 2\<close> grid, \<open>evalVolume\<close> should return exactly 1, and the eight gradient
  vectors of \<open>evalVolumeHex_b\<close> should sum to zero. Evaluated on the code, the gradient
  vectors do sum to zero, but the volume returned is \<open>5/6\<close>: the second pyramid is
  built on the corners \<open>(x0, x2, x4, x6)\<close>, which pairs two parallel edges as the
  diagonals of the face, and contributes nothing.
\<close>

theorem unit_cube_volume:
  "evalVolume (oneCell unitCube) = Inr (5 / 6, oneCell unitCube) \<and>
   vsum (evalVolumeHex_b (Vec3 0 0 0) (Vec3 1 0 0) (Vec3 0 1 0) (Vec3 1 1 0)
                         (Vec3 0 0 1) (Vec3 1 0 1) (Vec3 0 1 1) (Vec3 1 1 1)
                         0 1 2 3 4 5 6 7 (replicate 8 zero3)) = zero3"
  by code_simp


text \<open>
  Claim C3. Swapping the up and the down layer should negate the signed pyramid sum, so
  that \<open>evalVolume\<close> returns the same volume for both windings. Evaluated on the code at
  the unit cube with one corner moved, the signed sums are \<open>11/12\<close> and \<open>-13/12\<close> and
  the volumes returned are \<open>11/12\<close> and \<open>13/12\<close>: the second pyramid keeps its sign
  under the swap.
\<close>

theorem reflected_volume_differs:
  "rawVolume 2 2 skewCell = 11 / 12 \<and>
   rawVolume 2 2 (reflectLayers skewCell) = - (13 / 12) \<and>
   evalVolume (oneCell skewCell) = Inr (11 / 12, oneCell skewCell) \<and>
   evalVolume (oneCell (reflectLayers skewCell))
     = Inr (13 / 12, oneCell (reflectLayers skewCell)\<lparr>flipVolume := True\<rparr>)"
  by code_simp



section \<open>Rounding\<close>

lemma ulp_pos [simp]: "0 < ulp x"
  by (simp add: ulp_def)

lemma ulp_nz [simp]: "ulp x \<noteq> 0"
  by (simp add: ulp_def)

lemma huge_pos [simp]: "0 < huge" "\<not> huge \<le> 0"
  by (simp_all add: huge_def not_le)

lemma rhe_int [simp]: "rhe (of_int n) = n"
  by (simp add: rhe_def)

lemma rhe_near:
  assumes "\<bar>y - of_int n\<bar> < 1 / 2"
  shows "rhe y = n"
proof (cases "of_int n \<le> y")
  case True
  then have f: "\<lfloor>y\<rfloor> = n" using assms by (intro floor_unique) auto
  show ?thesis using assms True by (simp add: rhe_def f)
next
  case False
  then have f: "\<lfloor>y\<rfloor> = n - 1" using assms by (intro floor_unique) auto
  show ?thesis using assms False by (simp add: rhe_def f)
qed

lemma rhe_half_zero:
  assumes "\<bar>y\<bar> \<le> 1 / 2"
  shows "rhe y = 0"
proof (cases "0 \<le> y")
  case True
  then have f: "\<lfloor>y\<rfloor> = 0" using assms by (intro floor_unique) auto
  show ?thesis using assms True by (simp add: rhe_def f)
next
  case False
  then have f: "\<lfloor>y\<rfloor> = - 1" using assms by (intro floor_unique) auto
  show ?thesis using assms False by (simp add: rhe_def f Let_def)
qed

lemma p2_pos [simp]: "0 < p2 k" "p2 k \<noteq> 0" "0 \<le> p2 k" "\<not> p2 k < 0"
  by (simp_all add: p2_def)

lemma p2_0 [simp]: "p2 0 = 1"
  by (simp add: p2_def)

lemma p2_mult: "p2 a * p2 b = p2 (a + b)"
  by (simp add: p2_def powr_add)

lemma p2_mult_left: "(x * p2 a) * p2 b = x * p2 (a + b)"
  by (simp add: p2_def powr_add)

lemma p2_divide: "p2 a / p2 b = p2 (a - b)"
  by (simp add: p2_def powr_diff)

lemma p2_double: "p2 a + p2 a = p2 (a + 1)"
  by (simp add: p2_def powr_add)

lemma p2_less: "a < b \<Longrightarrow> p2 a < p2 b"
  by (simp add: p2_def)

lemma p2_le: "a \<le> b \<Longrightarrow> p2 a \<le> p2 b"
  by (simp add: p2_def)

lemma p2_nat: "0 \<le> k \<Longrightarrow> p2 k = of_int (2 ^ nat k)"
  by (simp add: p2_def powr_realpow [symmetric])

lemma sqrt_p2: "sqrt (p2 (2 * k)) = p2 k"
proof -
  have "p2 (2 * k) = (p2 k)\<^sup>2" by (simp add: power2_eq_square p2_mult)
  then show ?thesis by simp
qed

lemma huge_p2: "huge = p2 1024"
  by (simp add: huge_def p2_def)

lemma ulp_p2: "ulp x = p2 (fexp x - 52)"
  by (simp add: ulp_def p2_def)

lemma fexp_bounds:
  assumes "p2 E \<le> \<bar>x\<bar>" "\<bar>x\<bar> < p2 (E + 1)" "- 1022 \<le> E"
  shows "fexp x = E"
proof -
  have pos: "0 < \<bar>x\<bar>" using assms(1) p2_pos(1) [of E] by linarith
  have "of_int E \<le> log 2 \<bar>x\<bar>" using assms(1) pos by (simp add: le_log_iff p2_def)
  moreover have "log 2 \<bar>x\<bar> < of_int E + 1" using assms(2) pos by (simp add: log_less_iff p2_def)
  ultimately have "\<lfloor>log 2 \<bar>x\<bar>\<rfloor> = E" by (intro floor_unique) auto
  then show ?thesis using assms(3) by (simp add: fexp_def)
qed

lemma fexp_small:
  assumes "x \<noteq> 0" "\<bar>x\<bar> < p2 (- 1022)"
  shows "fexp x = - 1022"
proof -
  have pos: "0 < \<bar>x\<bar>" using assms(1) by simp
  have "log 2 \<bar>x\<bar> < - 1022" using assms(2) pos by (simp add: log_less_iff p2_def)
  then have "\<lfloor>log 2 \<bar>x\<bar>\<rfloor> < - 1022" by (simp add: floor_less_iff)
  then show ?thesis by (simp add: fexp_def)
qed

text \<open>Evaluating a rounding whose exponent and rounded quotient are known.\<close>

lemma fl_eval:
  assumes "x \<noteq> 0" "fexp x = E" "rhe (x / p2 (E - 52)) = n"
  shows "fl x = (if huge \<le> \<bar>of_int n * p2 (E - 52)\<bar>
                 then (if 0 < x then PInf else MInf)
                 else Fin (of_int n * p2 (E - 52)))"
  using assms by (simp add: fl_def ulp_p2 Let_def)

lemma fl_zero [simp]: "fl 0 = Fin 0"
  by (simp add: fl_def)

lemma fl_underflow:
  assumes "\<bar>x\<bar> \<le> p2 (- 1075)"
  shows "fl x = Fin 0"
proof (cases "x = 0")
  case True
  then show ?thesis by simp
next
  case False
  have "p2 (- 1075) < p2 (- 1022)" by (rule p2_less) simp
  with assms have "\<bar>x\<bar> < p2 (- 1022)" by (rule le_less_trans)
  with False have e: "fexp x = - 1022" by (rule fexp_small)
  have "\<bar>x / p2 (- 1074)\<bar> = \<bar>x\<bar> / p2 (- 1074)" by simp
  also have "\<dots> \<le> p2 (- 1075) / p2 (- 1074)"
    using assms by (intro divide_right_mono) auto
  also have "\<dots> = p2 (- 1)" by (simp add: p2_divide)
  also have "\<dots> = 1 / 2" by (simp add: p2_def powr_minus)
  finally have "rhe (x / p2 (- 1074)) = 0" by (rule rhe_half_zero)
  then have "rhe (x / p2 (- 1022 - 52)) = 0" by simp
  from fl_eval [OF False e this] show ?thesis by simp
qed

text \<open>A number with a mantissa of at most 53 bits and an exponent in range is a float.\<close>

lemma fl_repr:
  assumes m: "\<bar>m\<bar> < 2 ^ 53" and e: "- 1074 \<le> e"
      and r: "\<bar>of_int m * p2 e\<bar> < huge"
  shows "fl (of_int m * p2 e) = Fin (of_int m * p2 e)"
proof (cases "m = 0")
  case True
  then show ?thesis by simp
next
  case False
  let ?x = "of_int m * p2 e :: real"
  have x0: "?x \<noteq> 0" using False by simp
  have ax: "\<bar>?x\<bar> = of_int \<bar>m\<bar> * p2 e" by (simp add: abs_mult)
  have "of_int \<bar>m\<bar> < (2::real) ^ 53" using m by (metis of_int_less_numeral_power_cancel_iff)
  then have "\<bar>?x\<bar> < 2 ^ 53 * p2 e" unfolding ax by simp
  also have "\<dots> = p2 53 * p2 e" by (simp add: p2_nat)
  also have "\<dots> = p2 (e + 53)" by (simp add: p2_mult add.commute)
  finally have up: "\<bar>?x\<bar> < p2 (e + 53)" .
  have "log 2 \<bar>?x\<bar> < of_int e + 53" using up x0 by (simp add: log_less_iff p2_def)
  then have fl1: "\<lfloor>log 2 \<bar>?x\<bar>\<rfloor> \<le> e + 52" by (simp add: floor_le_iff)
  define k where "k = e + 52 - fexp ?x"
  have k0: "0 \<le> k" using fl1 e by (simp add: k_def fexp_def)
  have "?x / ulp ?x = of_int m * (p2 e / p2 (fexp ?x - 52))"
    by (simp add: ulp_p2)
  also have "p2 e / p2 (fexp ?x - 52) = p2 k" by (simp add: p2_divide k_def algebra_simps)
  also have "p2 k = of_int (2 ^ nat k)" using k0 by (rule p2_nat)
  finally have q: "?x / ulp ?x = of_int (m * 2 ^ nat k)" by simp
  have "of_int (rhe (?x / ulp ?x)) * ulp ?x = (?x / ulp ?x) * ulp ?x"
    by (simp only: q rhe_int)
  also have "\<dots> = ?x" by simp
  finally have v: "of_int (rhe (?x / ulp ?x)) * ulp ?x = ?x" .
  show ?thesis using x0 r unfolding fl_def Let_def v by simp
qed

lemma fl_p2:
  assumes "- 1074 \<le> k" "k \<le> 1023"
  shows "fl (p2 k) = Fin (p2 k)"
proof -
  have "p2 k < p2 1024" using assms by (intro p2_less) auto
  then have "\<bar>of_int 1 * p2 k\<bar> < huge" by (simp add: huge_p2)
  from fl_repr [of 1 k, OF _ assms(1) this] show ?thesis by simp
qed

lemma fl_one [simp]: "fl 1 = Fin 1"
  using fl_p2 [of 0] by simp

lemma fl_p2_over:
  assumes "1024 \<le> k"
  shows "fl (p2 k) = PInf"
proof -
  have e: "fexp (p2 k) = k"
    using assms by (intro fexp_bounds) (auto intro: p2_less)
  have "p2 k / p2 (k - 52) = of_int (2 ^ 52)"
    by (simp add: p2_divide p2_nat)
  then have r: "rhe (p2 k / p2 (k - 52)) = 2 ^ 52"
    by (simp only: rhe_int)
  have v: "of_int (2 ^ 52) * p2 (k - 52) = p2 k"
    using p2_mult [of 52 "k - 52"] by (simp add: p2_nat)
  have "huge \<le> p2 k" unfolding huge_p2 using assms by (rule p2_le)
  then show ?thesis
    using fl_eval [OF p2_pos(2) e r] unfolding v by simp
qed

text \<open>An addend below a quarter of the spacing is absorbed.\<close>

lemma fl_absorb:
  assumes k: "- 1022 \<le> k" "k \<le> 1023" and d: "0 \<le> d" "d < p2 (k - 54)"
  shows "fl (p2 k + d) = Fin (p2 k)"
proof -
  let ?x = "p2 k + d"
  have x0: "?x \<noteq> 0" using d(1) p2_pos(1) [of k] by linarith
  have "p2 (k - 54) < p2 k" by (rule p2_less) simp
  then have "?x < p2 k + p2 k" using d(2) by linarith
  then have up: "\<bar>?x\<bar> < p2 (k + 1)" using d(1) p2_pos(1) [of k] by (simp add: p2_double)
  have lo: "p2 k \<le> \<bar>?x\<bar>" using d(1) p2_pos(1) [of k] by simp
  have e: "fexp ?x = k" using lo up k(1) by (rule fexp_bounds)
  define t where "t = d / p2 (k - 52)"
  have q: "?x / p2 (k - 52) = of_int (2 ^ 52) + t"
    by (simp add: add_divide_distrib p2_divide p2_nat t_def)
  have "t < p2 (k - 54) / p2 (k - 52)"
    unfolding t_def using d(2) by (intro divide_strict_right_mono) auto
  also have "\<dots> = p2 (- 2)" by (simp add: p2_divide)
  also have "\<dots> = 1 / 4" by (simp add: p2_def powr_minus)
  finally have "t < 1 / 4" .
  moreover have "0 \<le> t" unfolding t_def using d(1) by simp
  ultimately have "\<bar>?x / p2 (k - 52) - of_int (2 ^ 52)\<bar> < 1 / 2" unfolding q by linarith
  then have r: "rhe (?x / p2 (k - 52)) = 2 ^ 52" by (rule rhe_near)
  have v: "of_int (2 ^ 52) * p2 (k - 52) = p2 k"
    using p2_mult [of 52 "k - 52"] by (simp add: p2_nat)
  have "p2 k < huge" unfolding huge_p2 using k(2) by (intro p2_less) simp
  then show ?thesis
    using fl_eval [OF x0 e r] unfolding v by simp
qed

text \<open>Between a half and three halves of the smallest float, the result is that float.\<close>

lemma fl_smallest:
  assumes "p2 (- 1075) < x" "x < 3 * p2 (- 1075)"
  shows "fl x = Fin (p2 (- 1074))"
proof -
  have x0: "x \<noteq> 0" using assms(1) p2_pos(1) [of "- 1075"] by linarith
  have xp: "0 < x" using assms(1) p2_pos(1) [of "- 1075"] by linarith
  have h: "p2 (- 1075) = p2 (- 1074) / 2"
    using p2_double [of "- 1075"] by simp
  have "3 * p2 (- 1075) < 4 * p2 (- 1075)" by simp
  also have "\<dots> = p2 (- 1073)" using p2_double [of "- 1075"] p2_double [of "- 1074"] by simp
  also have "\<dots> < p2 (- 1022)" by (rule p2_less) simp
  finally have "\<bar>x\<bar> < p2 (- 1022)" using assms(2) xp by simp
  with x0 have e: "fexp x = - 1022" by (rule fexp_small)
  define y where "y = x / p2 (- 1074)"
  have "1 / 2 < y" "y < 3 / 2"
    using assms unfolding h y_def by (simp_all add: field_simps)
  then have "\<bar>y - 1\<bar> < 1 / 2" by linarith
  then have "\<bar>y - of_int 1\<bar> < 1 / 2" by simp
  then have "rhe y = 1" by (rule rhe_near)
  then have "rhe (x / p2 (- 1074)) = 1" by (simp only: y_def)
  then have r: "rhe (x / p2 (- 1022 - 52)) = 1" by simp
  have "p2 (- 1074) < huge" unfolding huge_p2 by (rule p2_less) simp
  then show ?thesis
    using fl_eval [OF x0 e r] by simp
qed

lemma half_val: "half = Fin (1 / 2)"
proof -
  have h: "(1 / 2 :: real) = p2 (- 1)" by (simp add: p2_def powr_minus)
  show ?thesis unfolding half_def h by (rule fl_p2) simp_all
qed

lemma tenth_val: "tenth = Fin (7205759403792794 * p2 (- 56))"
proof -
  have a: "p2 (- 4) = 1 / 16" "p2 (- 3) = 1 / 8" "p2 (- 56) = 1 / 72057594037927936"
    by (simp_all add: p2_def powr_minus inverse_eq_divide)
  have e: "fexp (1 / 10) = - 4"
    by (rule fexp_bounds) (simp_all add: a)
  have "\<bar>(1 / 10) / p2 (- 56) - of_int 7205759403792794\<bar> < 1 / 2"
    by (simp add: a)
  then have "rhe ((1 / 10) / p2 (- 56)) = 7205759403792794" by (rule rhe_near)
  then have r: "rhe ((1 / 10) / p2 (- 4 - 52)) = 7205759403792794" by simp
  have "7205759403792794 * p2 (- 56) < (1::real)" by (simp add: a)
  also have "\<dots> < huge" unfolding huge_p2 using p2_less [of 0 1024] by simp
  finally have "\<not> huge \<le> \<bar>of_int 7205759403792794 * p2 (- 4 - 52)\<bar>" by simp
  then show ?thesis
    using fl_eval [OF _ e r] by (simp add: tenth_def)
qed

section \<open>The thickness claims\<close>

lemma fl_two: "fl 2 = Fin 2"
proof -
  have "p2 1 = 2" by (simp add: p2_def)
  then show ?thesis using fl_p2 [of 1] by simp
qed

lemma fl_four: "fl 4 = Fin 4"
proof -
  have "p2 2 = 4" by (simp add: p2_def)
  then show ?thesis using fl_p2 [of 2] by simp
qed

lemma np_div_self: "finite_nonzero x \<Longrightarrow> np_div x x = Fin 1"
  by (cases x) simp_all

lemma tc_evalFunctions_ok:
  assumes "2 * tc_nCon self \<le> length c"
  shows "tc_evalFunctions self c funcs =
           Inr (self\<lparr>tc_coords := c\<rparr>,
                funcs(tc_name self \<mapsto>
                  map (\<lambda>i. if tc_scaled self then np_div (thicknessAt c i) (D0 self ! i)
                            else thicknessAt c i) [0..<tc_nCon self]))"
proof -
  have "\<not> list_ex (\<lambda>i. length c \<le> 2 * i + 1) [0..<tc_nCon self]"
    using assms by (auto simp: list_ex_iff)
  then show ?thesis
    by (simp add: tc_evalFunctions_def Let_def thicknessAt_def cong: if_cong)
qed

lemma tc_evalRepeated_ok:
  assumes "\<forall>c\<in>set cs. 2 * tc_nCon self \<le> length c"
  shows "\<exists>self' funcs'. tc_evalRepeated self cs funcs = Inr (self', funcs') \<and>
           D0 self' = D0 self \<and> tc_nCon self' = tc_nCon self \<and>
           tc_name self' = tc_name self \<and> tc_scaled self' = tc_scaled self"
  using assms
proof (induction cs arbitrary: self funcs)
  case Nil
  then show ?case by simp
next
  case (Cons c cs)
  have c: "2 * tc_nCon self \<le> length c" using Cons.prems by simp
  let ?s = "self\<lparr>tc_coords := c\<rparr>"
  have "\<forall>c\<in>set cs. 2 * tc_nCon ?s \<le> length c" using Cons.prems by simp
  from Cons.IH [OF this] show ?case
    by (simp add: tc_evalFunctions_ok [OF c])
qed

lemma init_fields:
  assumes "ThicknessConstraint_init nm coords lower upper scaled scale dvgeo addToPyOpt = (self, dvgeo')"
  shows "D0 self = map (thicknessAt coords) [0..<length coords div 2]"
    and "tc_nCon self = length coords div 2" and "tc_name self = nm" and "tc_scaled self = scaled"
    and "tc_coords self = coords" and "dvgeo' = addPointSet dvgeo coords nm"
  using assms by (auto simp: ThicknessConstraint_init_def Let_def thicknessAt_def)

lemma thicknessAt_twoStations:
  "thicknessAt twoStations 0 = Fin 1" "thicknessAt twoStations (Suc 0) = Fin 2"
  by (simp_all add: thicknessAt_def twoStations_def fpoint_def fv_sub_def linalg_norm_def fsub_def
      fl_two fl_four)

lemma thicknessAt_tinyPair: "thicknessAt tinyPair 0 = Fin 0"
proof -
  have a: "fl (p2 (- 600)) = Fin (p2 (- 600))" by (rule fl_p2) simp_all
  have "\<bar>p2 (- 600) * p2 (- 600)\<bar> \<le> p2 (- 1075)"
    by (simp add: p2_mult p2_le)
  then have b: "fl (p2 (- 600) * p2 (- 600)) = Fin 0" by (rule fl_underflow)
  show ?thesis
    by (simp add: thicknessAt_def tinyPair_def fpoint_def fv_sub_def linalg_norm_def fsub_def a b)
qed

text \<open>
  Claim C4, as amended. For every \<open>ThicknessConstraint\<close> with \<open>scaled=True\<close>, the
  reference distances \<open>D0\<close> are computed at construction from the initial coordinates,
  no later \<open>evalFunctions\<close> changes them, and every later \<open>evalFunctions\<close> stores the
  distance of each pair in the current coordinates divided by \<open>D0[i]\<close>; called right
  after construction on the same coordinates, with every reference distance \<open>D0[i]\<close> a
  float64 number other than zero, it stores exactly 1 at every station.
\<close>

theorem thickness_reference_fixed:
  assumes init: "ThicknessConstraint_init nm coords lower upper True scale dvgeo addToPyOpt = (self, dvgeo')"
      and later: "\<forall>c\<in>set cs. 2 * (length coords div 2) \<le> length c"
  shows "D0 self = map (thicknessAt coords) [0..<length coords div 2] \<and>
         (\<exists>self' funcs'. tc_evalRepeated self cs funcs = Inr (self', funcs') \<and>
            D0 self' = D0 self \<and>
            (\<forall>c. 2 * (length coords div 2) \<le> length c \<longrightarrow>
               (\<exists>self''. tc_evalFunctions self' c funcs' =
                    Inr (self'', funcs'(nm \<mapsto>
                      map (\<lambda>i. np_div (thicknessAt c i) (thicknessAt coords i))
                          [0..<length coords div 2])) \<and>
                  D0 self'' = D0 self))) \<and>
         ((\<forall>i<length coords div 2. finite_nonzero (D0 self ! i)) \<longrightarrow>
            tc_evalFunctions self coords funcs =
              Inr (self, funcs(nm \<mapsto> replicate (length coords div 2) (Fin 1))))"
proof (intro conjI impI)
  note f = init_fields [OF init]
  show "D0 self = map (thicknessAt coords) [0..<length coords div 2]" by (rule f)
  have "\<forall>c\<in>set cs. 2 * tc_nCon self \<le> length c" using later by (simp add: f)
  from tc_evalRepeated_ok [OF this, of funcs]
  obtain self' funcs' where r: "tc_evalRepeated self cs funcs = Inr (self', funcs')"
    and inv: "D0 self' = D0 self" "tc_nCon self' = tc_nCon self" "tc_name self' = tc_name self"
      "tc_scaled self' = tc_scaled self"
    by blast
  have "\<exists>self''. tc_evalFunctions self' c funcs' =
          Inr (self'', funcs'(nm \<mapsto>
             map (\<lambda>i. np_div (thicknessAt c i) (thicknessAt coords i))
               [0..<length coords div 2])) \<and> D0 self'' = D0 self"
    if "2 * (length coords div 2) \<le> length c" for c
  proof -
    have "2 * tc_nCon self' \<le> length c" using that by (simp add: inv f)
    from tc_evalFunctions_ok [OF this, of funcs']
    have e: "tc_evalFunctions self' c funcs' =
          Inr (self'\<lparr>tc_coords := c\<rparr>,
               funcs'(nm \<mapsto> map (\<lambda>i. np_div (thicknessAt c i) (D0 self ! i))
                 [0..<length coords div 2]))"
      by (simp add: inv f(2,3,4))
    have m: "map (\<lambda>i. np_div (thicknessAt c i) (D0 self ! i)) [0..<length coords div 2]
           = map (\<lambda>i. np_div (thicknessAt c i) (thicknessAt coords i))
               [0..<length coords div 2]"
      by (rule map_cong [OF refl]) (simp add: f(1))
    show ?thesis
      unfolding e m using inv by simp
  qed
  with r inv show "\<exists>self' funcs'. tc_evalRepeated self cs funcs = Inr (self', funcs') \<and>
            D0 self' = D0 self \<and>
            (\<forall>c. 2 * (length coords div 2) \<le> length c \<longrightarrow>
               (\<exists>self''. tc_evalFunctions self' c funcs' =
                    Inr (self'', funcs'(nm \<mapsto>
                      map (\<lambda>i. np_div (thicknessAt c i) (thicknessAt coords i))
                          [0..<length coords div 2])) \<and>
                  D0 self'' = D0 self))"
    by blast
next
  note f = init_fields [OF init]
  assume nz: "\<forall>i<length coords div 2. finite_nonzero (D0 self ! i)"
  have "2 * tc_nCon self \<le> length coords" by (simp add: f)
  from tc_evalFunctions_ok [OF this, of funcs]
  have "tc_evalFunctions self coords funcs =
          Inr (self\<lparr>tc_coords := coords\<rparr>,
               funcs(nm \<mapsto> map (\<lambda>i. np_div (thicknessAt coords i) (D0 self ! i))
                 [0..<length coords div 2]))"
    by (simp add: f(2,3,4))
  moreover have "map (\<lambda>i. np_div (thicknessAt coords i) (D0 self ! i))
                 [0..<length coords div 2] = map (\<lambda>i. Fin 1) [0..<length coords div 2]"
  proof (rule map_cong [OF refl])
    fix i assume "i \<in> set [0..<length coords div 2]"
    then have i: "i < length coords div 2" by simp
    then have eq: "thicknessAt coords i = D0 self ! i" by (simp add: f(1))
    from nz i have "finite_nonzero (D0 self ! i)" by simp
    then have "np_div (D0 self ! i) (D0 self ! i) = Fin 1" by (rule np_div_self)
    then show "np_div (thicknessAt coords i) (D0 self ! i) = Fin 1"
      by (simp only: eq)
  qed
  moreover have "map (\<lambda>i. Fin 1) [0..<length coords div 2] = replicate (length coords div 2) (Fin 1)"
    by (simp add: map_replicate_const)
  moreover have "self\<lparr>tc_coords := coords\<rparr> = self"
    using f(5) by simp
  ultimately show "tc_evalFunctions self coords funcs =
              Inr (self, funcs(nm \<mapsto> replicate (length coords div 2) (Fin 1)))"
    by simp
qed

theorem thickness_reference_fixed_witness:
  "tc_evalFunctions
     (fst (ThicknessConstraint_init ''t'' twoStations (PyScalar 1) (PyScalar 3) True (PyScalar 1)
             emptyDVGeo True))
     twoStations Map.empty
   = Inr (fst (ThicknessConstraint_init ''t'' twoStations (PyScalar 1) (PyScalar 3) True (PyScalar 1)
                 emptyDVGeo True),
          [''t'' \<mapsto> replicate 2 (Fin 1)])"
proof -
  let ?self = "fst (ThicknessConstraint_init ''t'' twoStations (PyScalar 1) (PyScalar 3) True
                      (PyScalar 1) emptyDVGeo True)"
  have l: "length twoStations div 2 = 2" by (simp add: twoStations_def)
  have u: "[0..<2] = [0, Suc 0]" by (simp add: upt_rec numeral_2_eq_2)
  have d: "D0 ?self = [Fin 1, Fin 2]"
    using init_fields(1) [OF prod.collapse [symmetric], of "''t''" twoStations "PyScalar 1"
        "PyScalar 3" True "PyScalar 1" emptyDVGeo True]
    unfolding l u by (simp add: thicknessAt_twoStations)
  have nz: "\<forall>i<length twoStations div 2. finite_nonzero (D0 ?self ! i)"
    unfolding l d by (auto simp: less_Suc_eq numeral_2_eq_2)
  from thickness_reference_fixed [of "''t''" twoStations "PyScalar 1" "PyScalar 3" "PyScalar 1"
      emptyDVGeo True _ _ "[]" Map.empty, OF prod.collapse [symmetric]] nz
  show ?thesis
    by (simp add: l)
qed

text \<open>
  The claim as stated fails for a pair of different points whose distance is too small
  for its square to be a float: the reference distance computed is \<open>0.0\<close>, and the
  value stored right after construction is \<open>0.0 / 0.0\<close>, which is \<open>nan\<close>.
\<close>

theorem thickness_underflow_counterexample:
  "tinyPair ! 0 \<noteq> tinyPair ! 1 \<and>
   D0 (fst (ThicknessConstraint_init ''t'' tinyPair (PyScalar 1) (PyScalar 3) True (PyScalar 1)
              emptyDVGeo True)) = [Fin 0] \<and>
   tc_evalFunctions
     (fst (ThicknessConstraint_init ''t'' tinyPair (PyScalar 1) (PyScalar 3) True (PyScalar 1)
             emptyDVGeo True))
     tinyPair Map.empty
   = Inr (fst (ThicknessConstraint_init ''t'' tinyPair (PyScalar 1) (PyScalar 3) True (PyScalar 1)
                 emptyDVGeo True),
          [''t'' \<mapsto> [NaN]])"
proof -
  let ?self = "fst (ThicknessConstraint_init ''t'' tinyPair (PyScalar 1) (PyScalar 3) True
                      (PyScalar 1) emptyDVGeo True)"
  have l: "length tinyPair div 2 = 1" by (simp add: tinyPair_def)
  note f = init_fields [OF prod.collapse [symmetric], of "''t''" tinyPair "PyScalar 1"
        "PyScalar 3" True "PyScalar 1" emptyDVGeo True]
  have d: "D0 ?self = [Fin 0]"
    using f(1) by (simp add: l thicknessAt_tinyPair)
  have "2 * tc_nCon ?self \<le> length tinyPair" by (simp add: f(2))
  from tc_evalFunctions_ok [OF this, of Map.empty]
  have e: "tc_evalFunctions ?self tinyPair Map.empty = Inr (?self, [''t'' \<mapsto> [NaN]])"
    using f(5) by (simp add: f(2,3,4) l d thicknessAt_tinyPair)
  have "tinyPair ! 0 \<noteq> tinyPair ! 1"
    by (simp add: tinyPair_def fpoint_def)
  then show ?thesis using d e by simp
qed

section \<open>The leading and trailing edge claim\<close>

lemma foldl_last_match:
  "foldl (\<lambda>acc k. if P k then Some k else acc) a0 ks =
     (case filter P ks of [] \<Rightarrow> a0 | k # fs \<Rightarrow> Some (last (k # fs)))"
proof (induction ks rule: rev_induct)
  case Nil
  then show ?case by simp
next
  case (snoc x xs)
  then show ?case by (auto split: list.splits)
qed

lemma foldl_pair_split:
  "foldl (\<lambda>(up, down) k. (if P k then Some k else up, if Q k then Some k else down)) (u0, d0) ks
   = (foldl (\<lambda>acc k. if P k then Some k else acc) u0 ks,
      foldl (\<lambda>acc k. if Q k then Some k else acc) d0 ks)"
  by (induction ks arbitrary: u0 d0) simp_all

lemma findUpDown_lastPos: "findUpDown temp a b = (lastPos temp a, lastPos temp b)"
  unfolding findUpDown_def Let_def lastPos_def
  by (simp add: foldl_pair_split foldl_last_match)

lemma lastPos_SomeD:
  assumes "lastPos temp a = Some k"
  shows "k < length temp \<and> fst (temp ! k) = a"
proof -
  from assms obtain k' ks where f: "filter (\<lambda>k. fst (temp ! k) = a) [0..<length temp] = k' # ks"
    and k: "k = last (k' # ks)"
    by (auto simp: lastPos_def split: list.splits)
  have "last (k' # ks) \<in> set (k' # ks)" by (rule last_in_set) simp
  then have "k \<in> set (filter (\<lambda>k. fst (temp ! k) = a) [0..<length temp])"
    by (simp only: f k)
  then show ?thesis by simp
qed

lemma lastPos_None_iff: "lastPos temp a = None \<longleftrightarrow> a \<notin> fst ` set temp"
proof -
  have "filter (\<lambda>k. fst (temp ! k) = a) [0..<length temp] = [] \<longleftrightarrow> a \<notin> fst ` set temp"
  proof
    assume "filter (\<lambda>k. fst (temp ! k) = a) [0..<length temp] = []"
    then have "\<forall>k<length temp. fst (temp ! k) \<noteq> a"
      by (auto simp: filter_empty_conv)
    then show "a \<notin> fst ` set temp"
      by (metis fst_conv imageE in_set_conv_nth)
  next
    assume "a \<notin> fst ` set temp"
    then have "\<forall>k<length temp. fst (temp ! k) \<noteq> a"
      by (metis image_eqI nth_mem)
    then show "filter (\<lambda>k. fst (temp ! k) = a) [0..<length temp] = []"
      by (auto simp: filter_empty_conv)
  qed
  then show ?thesis
    by (auto simp: lastPos_def split: list.splits)
qed

lemma collectCons_eq:
  assumes "temp = [] \<or> (\<forall>j\<in>set js. j < length B)"
  shows "collectCons temp A B js cons =
           Inr (cons @ List.map_filter
                  (\<lambda>j. case (lastPos temp (A ! j), lastPos temp (B ! j)) of
                          (Some up, Some down) \<Rightarrow> Some (up, down)
                        | _ \<Rightarrow> None) js)"
  using assms
proof (induction js arbitrary: cons)
  case Nil
  then show ?case by simp
next
  case (Cons j js)
  have ok: "\<not> (temp \<noteq> [] \<and> length B \<le> j)" using Cons.prems by auto
  have rest: "temp = [] \<or> (\<forall>j\<in>set js. j < length B)" using Cons.prems by auto
  show ?case
    using ok Cons.IH [OF rest]
    by (auto simp: findUpDown_lastPos split: option.splits)
qed

lemma setEntry_ok:
  "i < length m \<Longrightarrow> col < length (m ! i) \<Longrightarrow> setEntry m i col v = Inr (m[i := (m ! i)[col := v]])"
  by (simp add: setEntry_def)

lemma fillJacobian_eq:
  assumes "\<forall>c\<in>set cons. fst c < ndv \<and> snd c < ndv" "m \<le> length cons"
  shows "fillJacobian cons [m..<length cons]
           (map (unitRow ndv) (take m cons) @ replicate (length cons - m) (replicate ndv 0))
         = Inr (map (unitRow ndv) cons)"
  using assms(2)
proof (induction "length cons - m" arbitrary: m)
  case 0
  then show ?case by simp
next
  case (Suc d)
  then have m: "m < length cons" by simp
  let ?J = "map (unitRow ndv) (take m cons) @ replicate (length cons - m) (replicate ndv 0)"
  have c: "fst (cons ! m) < ndv" "snd (cons ! m) < ndv"
    using assms(1) m by (auto simp: all_set_conv_all_nth)
  have row: "?J ! m = replicate ndv 0"
    using m by (simp add: nth_append)
  have lenJ: "m < length ?J" using m by simp
  have s1: "setEntry ?J m (fst (cons ! m)) 1 = Inr (?J[m := (replicate ndv 0)[fst (cons ! m) := 1]])"
    using lenJ c by (subst setEntry_ok) (simp_all only: row length_replicate)
  have s2: "setEntry (?J[m := (replicate ndv 0)[fst (cons ! m) := 1]]) m (snd (cons ! m)) 1
          = Inr (?J[m := unitRow ndv (cons ! m)])"
    using lenJ c by (subst setEntry_ok) (simp_all add: unitRow_def)
  have e: "length cons - m = Suc (length cons - Suc m)"
    using m by simp
  have "?J[m := unitRow ndv (cons ! m)]
        = map (unitRow ndv) (take m cons)
            @ (replicate (length cons - m) (replicate ndv 0))[0 := unitRow ndv (cons ! m)]"
    using m by (simp add: list_update_append)
  also have "\<dots> = map (unitRow ndv) (take m cons)
            @ unitRow ndv (cons ! m) # replicate (length cons - Suc m) (replicate ndv 0)"
    unfolding e by simp
  also have "\<dots> = map (unitRow ndv) (take (Suc m) cons)
            @ replicate (length cons - Suc m) (replicate ndv 0)"
    using m by (simp add: take_Suc_conv_app_nth)
  finally have next_J: "?J[m := unitRow ndv (cons ! m)]
        = map (unitRow ndv) (take (Suc m) cons) @ replicate (length cons - Suc m) (replicate ndv 0)" .
  have "[m..<length cons] = m # [Suc m..<length cons]"
    using m by (simp add: upt_conv_Cons)
  then show ?case
    using Suc.hyps(1) [of "Suc m"] Suc.hyps(2) m
    by (simp add: s1 s2 next_J)
qed

lemma groupCons_bounds:
  assumes "c \<in> set (groupCons temp A B)"
  shows "fst c < length temp \<and> snd c < length temp \<and>
         (\<exists>j<length A. fst (temp ! fst c) = A ! j \<and> fst (temp ! snd c) = B ! j)"
proof -
  from assms obtain j where j: "j < length A"
    and c: "(case (lastPos temp (A ! j), lastPos temp (B ! j)) of
               (Some up, Some down) \<Rightarrow> Some (up, down) | _ \<Rightarrow> None) = Some c"
    by (auto simp: groupCons_def List.map_filter_def)
  then obtain u d where u: "lastPos temp (A ! j) = Some u" and d: "lastPos temp (B ! j) = Some d"
    and cud: "c = (u, d)"
    by (auto split: option.splits prod.splits)
  from lastPos_SomeD [OF u] lastPos_SomeD [OF d] j cud show ?thesis
    by auto
qed

lemma length_groupCons:
  "length (groupCons temp A B)
     = length (filter (\<lambda>j. A ! j \<in> fst ` set temp \<and> B ! j \<in> fst ` set temp) [0..<length A])"
proof -
  have "length (List.map_filter f xs) = length (filter (\<lambda>x. f x \<noteq> None) xs)"
    for f :: "nat \<Rightarrow> (nat \<times> nat) option" and xs
    by (induction xs) (auto simp: map_filter_simps split: option.splits)
  moreover have "((case (lastPos temp (A ! j), lastPos temp (B ! j)) of
               (Some up, Some down) \<Rightarrow> Some (up, down) | _ \<Rightarrow> None) \<noteq> None)
        \<longleftrightarrow> (A ! j \<in> fst ` set temp \<and> B ! j \<in> fst ` set temp)" for j
    using lastPos_None_iff [of temp "A ! j"] lastPos_None_iff [of temp "B ! j"]
    by (auto split: option.splits)
  ultimately show ?thesis
    by (simp add: groupCons_def)
qed

lemma odict_set_fresh: "k \<notin> fst ` set d \<Longrightarrow> odict_set d k v = d @ [(k, v)]"
  by (induction d) auto

lemma groupRows_Nil: "groupRows A B [] = []"
  by (simp add: groupRows_def)

lemma groupRows_Cons: "groupRows A B (kg # gs) = groupRows A B [kg] @ groupRows A B gs"
  by (simp add: groupRows_def)

lemma fst_groupRows: "fst ` set (groupRows A B gs) \<subseteq> fst ` set gs"
proof -
  have "fst ` set (groupRows A B gs)
          = fst ` set (filter (\<lambda>kg. groupCons (coefList (snd kg)) A B \<noteq> []) gs)"
    by (simp add: groupRows_def image_image)
  also have "\<dots> \<subseteq> fst ` set gs"
    by (intro image_mono filter_is_subset)
  finally show ?thesis .
qed

lemma afterGroups_fields:
  "indSetA (afterGroups gs self) = indSetA self"
  "indSetB (afterGroups gs self) = indSetB self"
  "lt_name (afterGroups gs self) = lt_name self"
  "jac (afterGroups gs self) = jac self @ groupRows (indSetA self) (indSetB self) gs"
  "wrt (afterGroups gs self) = wrt self @ map fst (groupRows (indSetA self) (indSetB self) gs)"
  "ncon (afterGroups gs self) = ncon self
      + sum_list (map (\<lambda>kg. length (groupCons (coefList (snd kg)) (indSetA self) (indSetB self))) gs)"
  "conIndices (afterGroups gs self) = conIndices self
      @ concat (map (\<lambda>kg. groupCons (coefList (snd kg)) (indSetA self) (indSetB self)) gs)"
  by (simp_all add: afterGroups_def)

lemma afterGroups_Nil: "afterGroups [] self = self"
  by (simp add: afterGroups_def groupRows_Nil)

lemma afterGroups_Cons: "afterGroups gs (afterGroups [kg] self) = afterGroups (kg # gs) self"
  by (simp add: afterGroups_def groupRows_Cons [of _ _ kg gs])

lemma finalizeGroup_eq:
  assumes "length (indSetA self) \<le> length (indSetB self)"
      and "length (coefList (snd kg)) \<le> nVal (snd kg)"
      and "fst kg \<notin> fst ` set (jac self)"
  shows "finalizeGroup kg self = Inr (afterGroups [kg] self)"
proof -
  define cons where "cons = groupCons (coefList (snd kg)) (indSetA self) (indSetB self)"
  have cc: "collectCons (coefList (snd kg)) (indSetA self) (indSetB self) [0..<length (indSetA self)] []
          = Inr cons"
    using assms(1) by (subst collectCons_eq) (auto simp: cons_def groupCons_def)
  have b: "\<forall>c\<in>set cons. fst c < nVal (snd kg) \<and> snd c < nVal (snd kg)"
    using groupCons_bounds [of _ "coefList (snd kg)" "indSetA self" "indSetB self"] assms(2)
    unfolding cons_def by fastforce
  have fj: "fillJacobian cons [0..<length cons] (replicate (length cons) (replicate (nVal (snd kg)) 0))
          = Inr (map (unitRow (nVal (snd kg))) cons)"
    using fillJacobian_eq [OF b, of 0] by simp
  show ?thesis
  proof (cases "cons = []")
    case True
    then show ?thesis
      unfolding finalizeGroup_def Let_def cc afterGroups_def cons_def [symmetric]
      by (simp add: groupRows_def cons_def [symmetric])
  next
    case False
    then show ?thesis
      unfolding finalizeGroup_def Let_def cc afterGroups_def cons_def [symmetric]
      using assms(3)
      by (simp add: fj groupRows_def cons_def [symmetric] odict_set_fresh)
  qed
qed

lemma finalizeGroups_eq:
  assumes "length (indSetA self) \<le> length (indSetB self)"
      and "\<forall>kg\<in>set gs. length (coefList (snd kg)) \<le> nVal (snd kg)"
      and "distinct (map fst gs)"
      and "fst ` set gs \<inter> fst ` set (jac self) = {}"
  shows "finalizeGroups gs self = Inr (afterGroups gs self)"
  using assms
proof (induction gs arbitrary: self)
  case Nil
  show ?case by (simp add: afterGroups_Nil)
next
  case (Cons kg gs)
  define s1 where "s1 = afterGroups [kg] self"
  have k1: "length (coefList (snd kg)) \<le> nVal (snd kg)"
    using Cons.prems(2) by simp
  have k2: "fst kg \<notin> fst ` set (jac self)"
    using Cons.prems(4) by (simp add: disjoint_iff)
  have step: "finalizeGroup kg self = Inr s1"
    unfolding s1_def by (rule finalizeGroup_eq [OF Cons.prems(1) k1 k2])
  have A1: "indSetA s1 = indSetA self" and B1: "indSetB s1 = indSetB self"
    by (simp_all only: s1_def afterGroups_fields)
  have j1: "jac s1 = jac self @ groupRows (indSetA self) (indSetB self) [kg]"
    by (simp only: s1_def afterGroups_fields)
  define G where "G = fst ` set gs"
  define J where "J = fst ` set (jac self)"
  define J1 where "J1 = fst ` set (jac s1)"
  define K where "K = fst ` set (groupRows (indSetA self) (indSetB self) [kg])"
  have nk: "fst kg \<notin> G"
    unfolding G_def using Cons.prems(3) by (simp add: image_iff)
  have "fst ` set (kg # gs) = insert (fst kg) G"
    by (simp add: G_def)
  then have "insert (fst kg) G \<inter> J = {}"
    using Cons.prems(4) by (simp only: J_def)
  then have old: "G \<inter> J = {}"
    by blast
  have sub: "K \<subseteq> {fst kg}"
    unfolding K_def using fst_groupRows [of "indSetA self" "indSetB self" "[kg]"] by simp
  have un: "J1 = J \<union> K"
    unfolding J1_def J_def K_def by (simp only: j1 set_append image_Un)
  have "G \<inter> J1 = {}"
    unfolding un using nk old sub by blast
  then have fresh: "fst ` set gs \<inter> fst ` set (jac s1) = {}"
    by (simp only: G_def J1_def)
  have p1: "length (indSetA s1) \<le> length (indSetB s1)"
    using Cons.prems(1) by (simp only: A1 B1)
  have p2: "\<forall>kg\<in>set gs. length (coefList (snd kg)) \<le> nVal (snd kg)"
    using Cons.prems(2) by simp
  have p3: "distinct (map fst gs)"
    using Cons.prems(3) by simp
  have "finalizeGroups (kg # gs) self = finalizeGroups gs s1"
    by (simp only: finalizeGroups.simps step sum.case)
  also have "\<dots> = Inr (afterGroups gs s1)"
    by (rule Cons.IH [OF p1 p2 p3 fresh])
  also have "afterGroups gs s1 = afterGroups (kg # gs) self"
    unfolding s1_def by (rule afterGroups_Cons)
  finally show ?case .
qed

lemma groupRows_four:
  "groupRows [0, 2] [1, 3] (DV_listLocal fourCoefficients) = [(''local'', [[1, 1, 0, 0], [0, 0, 1, 1]])]"
  by code_simp

text \<open>
  Claim C6. \<open>_finalize\<close>, run by the constructor over a parameterization whose group
  keys are distinct and whose groups have at least as many variables as coefficient
  rows, raises nothing and leaves, for every group that contains both indices of some
  index pair, one Jacobian block under the group's key, with one row per such pair, in
  the order of the pairs: the row of zeros of length \<open>nVal\<close> with 1 at the positions of
  the two indices in the group's coefficient list. A pair that a group does not contain
  contributes no row to that group, and a group that contains no pair gets no block.
  \<open>ncon\<close> counts the pairs contained, over all groups. For the two pairs \<open>(0, 1)\<close> and
  \<open>(2, 3)\<close> over one group holding the indices 0, 1, 2, 3 in order, the Jacobian is the
  two rows \<open>1 1 0 0\<close> and \<open>0 0 1 1\<close>.
\<close>

theorem lete_finalize_jacobian:
  assumes "length A = length B"
      and "\<forall>kg\<in>set (DV_listLocal dvgeo). length (coefList (snd kg)) \<le> nVal (snd kg)"
      and "distinct (map fst (DV_listLocal dvgeo))"
  shows "\<exists>self. LeTeConstraint_init nm A B dvgeo = Inr self \<and>
           jac self = groupRows A B (DV_listLocal dvgeo) \<and>
           wrt self = map fst (groupRows A B (DV_listLocal dvgeo)) \<and>
           ncon self = (\<Sum>kg\<leftarrow>DV_listLocal dvgeo.
                          length (filter (\<lambda>j. A ! j \<in> fst ` set (coefList (snd kg)) \<and>
                                               B ! j \<in> fst ` set (coefList (snd kg)))
                                    [0..<length A])) \<and>
           (\<forall>kg\<in>set (DV_listLocal dvgeo). \<forall>c\<in>set (groupCons (coefList (snd kg)) A B).
              fst c < nVal (snd kg) \<and> snd c < nVal (snd kg) \<and>
              (\<exists>j<length A. fst (coefList (snd kg) ! fst c) = A ! j \<and>
                             fst (coefList (snd kg) ! snd c) = B ! j))"
proof -
  define s0 where "s0 = \<lparr>lt_name = nm, indSetA = A, indSetB = B, ncon = 0, wrt = [], jac = [],
                           conIndices = []\<rparr>"
  have f0: "indSetA s0 = A" "indSetB s0 = B" "ncon s0 = 0" "wrt s0 = []" "jac s0 = []"
    by (simp_all add: s0_def)
  have p1: "length (indSetA s0) \<le> length (indSetB s0)"
    using assms(1) by (simp add: f0)
  have p4: "fst ` set (DV_listLocal dvgeo) \<inter> fst ` set (jac s0) = {}"
    by (simp add: f0)
  have r: "finalizeGroups (DV_listLocal dvgeo) s0 = Inr (afterGroups (DV_listLocal dvgeo) s0)"
    by (rule finalizeGroups_eq [OF p1 assms(2) assms(3) p4])
  have i: "LeTeConstraint_init nm A B dvgeo = Inr (afterGroups (DV_listLocal dvgeo) s0)"
    by (simp add: LeTeConstraint_init_def finalize_def r [unfolded s0_def] s0_def)
  have b: "fst c < nVal (snd kg) \<and> snd c < nVal (snd kg) \<and>
              (\<exists>j<length A. fst (coefList (snd kg) ! fst c) = A ! j \<and>
                             fst (coefList (snd kg) ! snd c) = B ! j)"
    if "kg \<in> set (DV_listLocal dvgeo)" "c \<in> set (groupCons (coefList (snd kg)) A B)" for kg c
  proof -
    from groupCons_bounds [OF that(2)] assms(2) that(1) show ?thesis
      by (meson less_le_trans)
  qed
  show ?thesis
    using i b
    by (intro exI [of _ "afterGroups (DV_listLocal dvgeo) s0"])
       (simp add: afterGroups_fields f0 length_groupCons)
qed

theorem lete_finalize_jacobian_witness:
  "\<exists>self. LeTeConstraint_init ''lete_constraint_0'' [0, 2] [1, 3] fourCoefficients = Inr self \<and>
          jac self = [(''local'', [[1, 1, 0, 0], [0, 0, 1, 1]])] \<and> wrt self = [''local''] \<and>
          ncon self = 2"
proof -
  have h: "\<forall>kg\<in>set (DV_listLocal fourCoefficients). length (coefList (snd kg)) \<le> nVal (snd kg)"
    "distinct (map fst (DV_listLocal fourCoefficients))"
    by (simp_all add: fourCoefficients_def)
  have n: "(\<Sum>kg\<leftarrow>DV_listLocal fourCoefficients.
              length (filter (\<lambda>j. [0, 2] ! j \<in> fst ` set (coefList (snd kg)) \<and>
                                   [1, 3] ! j \<in> fst ` set (coefList (snd kg)))
                        [0..<length [0, 2 :: int]])) = 2"
    by (simp add: fourCoefficients_def upt_rec)
  from lete_finalize_jacobian [of "[0, 2]" "[1, 3]" fourCoefficients "''lete_constraint_0''"] h
  obtain self where "LeTeConstraint_init ''lete_constraint_0'' [0, 2] [1, 3] fourCoefficients = Inr self"
    and "jac self = groupRows [0, 2] [1, 3] (DV_listLocal fourCoefficients)"
    and "wrt self = map fst (groupRows [0, 2] [1, 3] (DV_listLocal fourCoefficients))"
    and "ncon self = (\<Sum>kg\<leftarrow>DV_listLocal fourCoefficients.
              length (filter (\<lambda>j. [0, 2] ! j \<in> fst ` set (coefList (snd kg)) \<and>
                                   [1, 3] ! j \<in> fst ` set (coefList (snd kg)))
                        [0..<length [0, 2 :: int]]))"
    by auto
  then show ?thesis
    unfolding groupRows_four n by simp
qed

section \<open>The claim on failed projections\<close>













section \<open>The claim on the shape helpers\<close>

lemma np_mul_not_ShapeError: "np_mul v b \<noteq> Inl ShapeError"
  by (simp add: np_mul_def Let_def split: option.splits)

text \<open>
  Claim C8, as amended. For every input value, the guard of \<open>_convertTo2D\<close> and of
  \<open>_convertTo1D\<close> tests the function object \<open>numpy.isscalar\<close> and is always true:
  both helpers return \<open>value * ones(...)\<close>, whatever the value, and the shape check of
  the else branch and its \<open>Error\<close> are never reached. A wrongly shaped array that numpy
  can broadcast is therefore not rejected: an array of shape \<open>(1,)\<close> given for
  \<open>dim1 = 5\<close> comes back as an array of shape \<open>(5,)\<close>, where the helper with the
  predicate called on the value would raise. What rejects a wrongly shaped array is
  only the broadcast of the multiplication, with numpy's \<open>ValueError\<close>.
\<close>

theorem isscalar_guard_always_true:
  "truth_of_function isscalar \<and>
   convertTo2D v dim1 dim2 = np_mul v (ones [dim1, dim2]) \<and>
   convertTo1D v dim1 = np_mul v (ones [dim1]) \<and>
   convertTo2D v dim1 dim2 \<noteq> Inl ShapeError \<and>
   convertTo1D v dim1 \<noteq> Inl ShapeError \<and>
   (\<exists>a. convertTo1D (PyArray (ones [1])) 5 = Inr (PyArray a) \<and> shape a = [5]) \<and>
   convertTo1D_called (PyArray (ones [1])) 5 = Inl ShapeError \<and>
   (\<exists>a. convertTo2D (PyArray (ones [2])) 3 2 = Inr (PyArray a) \<and> shape a = [3, 2]) \<and>
   convertTo2D_called (PyArray (ones [2])) 3 2 = Inl ShapeError"
proof -
  have g: "truth_of_function isscalar" by (simp add: truth_of_function_def)
  have a: "convertTo2D v dim1 dim2 = np_mul v (ones [dim1, dim2])"
    by (simp add: convertTo2D_def g)
  have b: "convertTo1D v dim1 = np_mul v (ones [dim1])"
    by (simp add: convertTo1D_def g)
  have c: "\<exists>a. convertTo1D (PyArray (ones [1])) 5 = Inr (PyArray a) \<and> shape a = [5]"
    by (simp add: convertTo1D_def g np_mul_def as_array_def ones_def broadcast_shapes_def)
  have d: "convertTo1D_called (PyArray (ones [1])) 5 = Inl ShapeError"
    by (simp add: convertTo1D_called_def isscalar_def atleast_1d_def as_array_def ones_def)
  have e: "\<exists>a. convertTo2D (PyArray (ones [2])) 3 2 = Inr (PyArray a) \<and> shape a = [3, 2]"
    by (simp add: convertTo2D_def g np_mul_def as_array_def ones_def broadcast_shapes_def)
  have f: "convertTo2D_called (PyArray (ones [2])) 3 2 = Inl ShapeError"
    by (simp add: convertTo2D_called_def isscalar_def atleast_2d_def as_array_def ones_def)
  show ?thesis
    using g c d e f unfolding a b by (simp add: np_mul_not_ShapeError)
qed

text \<open>
  The claim as stated says that a wrongly shaped array is never detected by the
  helpers. An array of shape \<open>(3,)\<close> given for \<open>dim1 = 5\<close>, or for a \<open>2 \<times> 2\<close>
  grid, is rejected inside the helper: the multiplication cannot broadcast it and
  raises \<open>ValueError\<close>.
\<close>

theorem wrong_shape_rejected_counterexample:
  "convertTo1D (PyArray (ones [3])) 5 = Inl ValueError \<and>
   convertTo2D (PyArray (ones [3])) 2 2 = Inl ValueError"
  by (simp add: convertTo1D_def convertTo2D_def truth_of_function_def np_mul_def as_array_def
      ones_def broadcast_shapes_def)

end
